theory Spec2Isabelle
  imports Complex_Main
begin

section \<open>JavaScript values\<close>

text \<open>
  A JavaScript number is an IEEE 754 double: a finite value, negative zero, one of the
  two infinities, or NaN. A finite value is given by the real number it denotes;
  \<open>Fin 0\<close> is positive zero. Every comparison with NaN is false, and the two zeros
  compare equal, as in the language.
\<close>

datatype jsnum = Fin real | NegZero | PInf | NInf | NaN

fun js_gt :: "jsnum \<Rightarrow> real \<Rightarrow> bool" where
  "js_gt (Fin r) c = (c < r)"
| "js_gt NegZero c = (c < 0)"
| "js_gt PInf c = True"
| "js_gt NInf c = False"
| "js_gt NaN c = False"

fun js_lt :: "jsnum \<Rightarrow> real \<Rightarrow> bool" where
  "js_lt (Fin r) c = (r < c)"
| "js_lt NegZero c = (0 < c)"
| "js_lt PInf c = False"
| "js_lt NInf c = True"
| "js_lt NaN c = False"

fun js_le :: "jsnum \<Rightarrow> real \<Rightarrow> bool" where
  "js_le (Fin r) c = (r \<le> c)"
| "js_le NegZero c = (0 \<le> c)"
| "js_le PInf c = False"
| "js_le NInf c = True"
| "js_le NaN c = False"

text \<open>
  Rounding to the nearest double, ties to even. A real \<open>x \<noteq> 0\<close> lies in the binade of
  exponent \<open>e = \<lfloor>log 2 \<bar>x\<bar>\<rfloor>\<close>, not below the exponent -1022 of the subnormal
  numbers; the doubles of that binade are the multiples of \<open>2 powr (e - 52)\<close>. The
  result is a real; a result of magnitude \<open>2 ^ 1024\<close> or more stands for an overflow.
\<close>

definition roundHalfEven :: "real \<Rightarrow> int" where
  "roundHalfEven q =
     (let f = \<lfloor>q\<rfloor>; d = q - of_int f in
      if d < 1 / 2 then f
      else if 1 / 2 < d then f + 1
      else if even f then f else f + 1)"

definition roundToDouble :: "real \<Rightarrow> real" where
  "roundToDouble x =
     (if x = 0 then 0
      else (let e = max \<lfloor>log 2 \<bar>x\<bar>\<rfloor> (- 1022);
                ulp = 2 powr (of_int e - 52)
            in of_int (roundHalfEven (x / ulp)) * ulp))"

definition signedInf :: "bool \<Rightarrow> jsnum" where
  "signedInf negative = (if negative then NInf else PInf)"

definition signedZero :: "bool \<Rightarrow> jsnum" where
  "signedZero negative = (if negative then NegZero else Fin 0)"

text \<open>
  The number that an operation returns for the exact result \<open>x\<close>: the nearest double,
  an infinity on overflow, and a zero of the given sign when the result is zero or
  rounds to zero.
\<close>

definition toDouble :: "bool \<Rightarrow> real \<Rightarrow> jsnum" where
  "toDouble negativeZero x =
     (let r = roundToDouble x in
      if 2 ^ 1024 \<le> \<bar>r\<bar> then signedInf (r < 0)
      else if r = 0 then signedZero negativeZero
      else Fin r)"

text \<open>The number that a decimal literal or a parsed decimal string denotes.\<close>

definition nearestDouble :: "real \<Rightarrow> jsnum" where
  "nearestDouble x = toDouble (x < 0) x"

fun js_negative :: "jsnum \<Rightarrow> bool" where
  "js_negative (Fin r) = (r < 0)"
| "js_negative NegZero = True"
| "js_negative PInf = False"
| "js_negative NInf = True"
| "js_negative NaN = False"

fun js_is_zero :: "jsnum \<Rightarrow> bool" where
  "js_is_zero (Fin r) = (r = 0)"
| "js_is_zero NegZero = True"
| "js_is_zero PInf = False"
| "js_is_zero NInf = False"
| "js_is_zero NaN = False"

fun js_is_inf :: "jsnum \<Rightarrow> bool" where
  "js_is_inf (Fin r) = False"
| "js_is_inf NegZero = False"
| "js_is_inf PInf = True"
| "js_is_inf NInf = True"
| "js_is_inf NaN = False"

fun js_value :: "jsnum \<Rightarrow> real" where
  "js_value (Fin r) = r"
| "js_value NegZero = 0"
| "js_value PInf = 0"
| "js_value NInf = 0"
| "js_value NaN = 0"

text \<open>
  Addition. Infinities of opposite sign give NaN. An exact sum of zero is negative zero
  only when both operands are negative zeros.
\<close>

definition js_add :: "jsnum \<Rightarrow> jsnum \<Rightarrow> jsnum" where
  "js_add a b =
     (if a = NaN \<or> b = NaN then NaN
      else if js_is_inf a \<and> js_is_inf b then (if a = b then a else NaN)
      else if js_is_inf a then a
      else if js_is_inf b then b
      else (let s = js_value a + js_value b in
            toDouble (if s = 0 then js_negative a \<and> js_negative b else s < 0) s))"

text \<open>
  Multiplication and division. The sign of the result is the exclusive or of the signs
  of the operands, also for a zero and for an infinity. An infinity times a zero, a zero
  divided by a zero and an infinity divided by an infinity give NaN.
\<close>

definition js_mul :: "jsnum \<Rightarrow> jsnum \<Rightarrow> jsnum" where
  "js_mul a b =
     (if a = NaN \<or> b = NaN then NaN
      else if js_is_inf a \<or> js_is_inf b
      then (if js_is_zero a \<or> js_is_zero b then NaN
            else signedInf (js_negative a \<noteq> js_negative b))
      else toDouble (js_negative a \<noteq> js_negative b) (js_value a * js_value b))"

definition js_div :: "jsnum \<Rightarrow> jsnum \<Rightarrow> jsnum" where
  "js_div a b =
     (if a = NaN \<or> b = NaN then NaN
      else if js_is_inf a
      then (if js_is_inf b then NaN else signedInf (js_negative a \<noteq> js_negative b))
      else if js_is_inf b then signedZero (js_negative a \<noteq> js_negative b)
      else if js_is_zero b
      then (if js_is_zero a then NaN else signedInf (js_negative a \<noteq> js_negative b))
      else toDouble (js_negative a \<noteq> js_negative b) (js_value a / js_value b))"

text \<open>
  The built-in conversions between numbers and strings (\<open>parseFloat\<close>,
  \<open>toLocaleString\<close>, \<open>toFixed(1)\<close>, the conversion of a template literal) and
  \<open>toUpperCase().trim()\<close> are not part of the repository: the functions that use
  them take them as a parameter.
\<close>

record js_builtins =
  parseFloat :: "string \<Rightarrow> jsnum"
  toLocaleString :: "jsnum \<Rightarrow> string"
  toFixed1 :: "jsnum \<Rightarrow> string"
  numToString :: "jsnum \<Rightarrow> string"
  toUpperCaseTrim :: "string \<Rightarrow> string"

text \<open>The em dash of the source's messages, in UTF-8.\<close>

definition emDash :: string where
  "emDash = [CHR 0xE2, CHR 0x80, CHR 0x94]"

text \<open>
  A JavaScript \<open>Set\<close> of strings keeps its elements in insertion order; it is a list
  without duplicates, \<open>add\<close> appends an element that is not yet there.
\<close>

definition set_add :: "string \<Rightarrow> string list \<Rightarrow> string list" where
  "set_add x xs = (if x \<in> set xs then xs else xs @ [x])"

section \<open>Scoring (scanEngine: calculateScore)\<close>

record SecurityData =
  is_honeypot :: bool
  is_mintable :: bool
  owner_address :: string
  is_open_source :: bool
  buy_tax :: string
  sell_tax :: string
  cannot_sell_all :: bool
  is_proxy :: bool
  slippage_modifiable :: bool

record ScoreFactor =
  label :: string
  impact :: real
  status :: string
  detail :: string

text \<open>
  The fields of the \<open>analysis\<close> object and of the cluster-control result that
  \<open>calculateScore\<close> reads. Both parameters are untyped at this point of the source,
  so each field is any JavaScript number.
\<close>

record Analysis =
  bundleWalletCount :: jsnum
  block0Volume :: jsnum
  holdingConcentration :: jsnum

record BundleControlResult =
  clusterCount :: jsnum
  lpImpactRatio :: jsnum
  totalBundledSupplyPercent :: jsnum

text \<open>
  The state of \<open>calculateScore\<close>: the running \<open>score\<close> and the \<open>breakdown\<close> list.
  Each rule of the source is one function on this state, in the source's order; the
  deduction from the score and the impact written into the entry are two separate
  literals, as in the source.
\<close>

type_synonym score_state = "real \<times> ScoreFactor list"

definition honeypotFactor :: ScoreFactor where
  "honeypotFactor =
     \<lparr>label = ''Honeypot'', impact = - 100, status = ''fail'',
      detail = ''Cannot sell '' @ emDash @ '' confirmed honeypot''\<rparr>"

definition mintableRule :: "SecurityData option \<Rightarrow> score_state \<Rightarrow> score_state" where
  "mintableRule security st =
     (if (case security of None \<Rightarrow> False | Some s \<Rightarrow> is_mintable s)
      then (fst st - 25,
            snd st @ [\<lparr>label = ''Mintable Supply'', impact = - 25, status = ''fail'',
                       detail = ''Owner can mint new tokens''\<rparr>])
      else st)"

text \<open>\<open>security?.buy_tax || '0'\<close>: the empty string and a missing audit give \<open>'0'\<close>.\<close>

definition taxString :: "(SecurityData \<Rightarrow> string) \<Rightarrow> SecurityData option \<Rightarrow> string" where
  "taxString field security =
     (case security of None \<Rightarrow> ''0''
      | Some s \<Rightarrow> (if field s = [] then ''0'' else field s))"

definition buyTaxRule :: "js_builtins \<Rightarrow> SecurityData option \<Rightarrow> score_state \<Rightarrow> score_state" where
  "buyTaxRule js security st =
     (let buyTax = parseFloat js (taxString buy_tax security) in
      if js_gt buyTax 10
      then (fst st - 15,
            snd st @ [\<lparr>label = ''Buy Tax'', impact = - 15, status = ''fail'',
                       detail = toFixed1 js buyTax @ ''% tax on buys''\<rparr>])
      else st)"

definition sellTaxRule :: "js_builtins \<Rightarrow> SecurityData option \<Rightarrow> score_state \<Rightarrow> score_state" where
  "sellTaxRule js security st =
     (let sellTax = parseFloat js (taxString sell_tax security) in
      if js_gt sellTax 10
      then (fst st - 15,
            snd st @ [\<lparr>label = ''Sell Tax'', impact = - 15, status = ''fail'',
                       detail = toFixed1 js sellTax @ ''% tax on sells''\<rparr>])
      else st)"

definition sellRestrictionRule :: "SecurityData option \<Rightarrow> score_state \<Rightarrow> score_state" where
  "sellRestrictionRule security st =
     (if (case security of None \<Rightarrow> False | Some s \<Rightarrow> cannot_sell_all s)
      then (fst st - 30,
            snd st @ [\<lparr>label = ''Sell Restriction'', impact = - 30, status = ''fail'',
                       detail = ''Cannot sell entire balance''\<rparr>])
      else st)"

definition liquidityRule :: "js_builtins \<Rightarrow> jsnum \<Rightarrow> score_state \<Rightarrow> score_state" where
  "liquidityRule js liquidityUsd st =
     (if js_lt liquidityUsd 1000
      then (fst st - 40,
            snd st @ [\<lparr>label = ''Liquidity'', impact = - 40, status = ''fail'',
                       detail = ''$'' @ toLocaleString js liquidityUsd @ '' '' @ emDash
                                @ '' critically low''\<rparr>])
      else if js_lt liquidityUsd 5000
      then (fst st - 25,
            snd st @ [\<lparr>label = ''Liquidity'', impact = - 25, status = ''warn'',
                       detail = ''$'' @ toLocaleString js liquidityUsd @ '' '' @ emDash
                                @ '' low''\<rparr>])
      else if js_lt liquidityUsd 20000
      then (fst st - 10,
            snd st @ [\<lparr>label = ''Liquidity'', impact = - 10, status = ''warn'',
                       detail = ''$'' @ toLocaleString js liquidityUsd @ '' '' @ emDash
                                @ '' moderate''\<rparr>])
      else (fst st,
            snd st @ [\<lparr>label = ''Liquidity'', impact = 0, status = ''pass'',
                       detail = ''$'' @ toLocaleString js liquidityUsd @ '' '' @ emDash
                                @ '' healthy''\<rparr>]))"

definition bundleActivityRule :: "js_builtins \<Rightarrow> Analysis \<Rightarrow> score_state \<Rightarrow> score_state" where
  "bundleActivityRule js analysis st =
     (let n = bundleWalletCount analysis in
      if js_gt n 10
      then (fst st - 30,
            snd st @ [\<lparr>label = ''Bundle Activity'', impact = - 30, status = ''fail'',
                       detail = numToString js n @ '' bundled wallets '' @ emDash
                                @ '' heavy coordination''\<rparr>])
      else if js_gt n 5
      then (fst st - 15,
            snd st @ [\<lparr>label = ''Bundle Activity'', impact = - 15, status = ''warn'',
                       detail = numToString js n @ '' bundled wallets '' @ emDash
                                @ '' moderate coordination''\<rparr>])
      else if js_gt n 2
      then (fst st - 5,
            snd st @ [\<lparr>label = ''Bundle Activity'', impact = - 5, status = ''warn'',
                       detail = numToString js n @ '' bundled wallets detected''\<rparr>])
      else (fst st,
            snd st @ [\<lparr>label = ''Bundle Activity'', impact = 0, status = ''pass'',
                       detail = (if js_gt n 0
                                 then numToString js n @ '' wallet(s) '' @ emDash @ '' minimal''
                                 else ''No bundle activity detected'')\<rparr>]))"

definition launchVolumeRule :: "js_builtins \<Rightarrow> Analysis \<Rightarrow> score_state \<Rightarrow> score_state" where
  "launchVolumeRule js analysis st =
     (let v = block0Volume analysis in
      if js_gt v 50000
      then (fst st - 25,
            snd st @ [\<lparr>label = ''Launch Volume'', impact = - 25, status = ''fail'',
                       detail = ''$'' @ toLocaleString js v @ '' '' @ emDash
                                @ '' massive launch buying''\<rparr>])
      else if js_gt v 10000
      then (fst st - 15,
            snd st @ [\<lparr>label = ''Launch Volume'', impact = - 15, status = ''warn'',
                       detail = ''$'' @ toLocaleString js v @ '' '' @ emDash
                                @ '' high launch buying''\<rparr>])
      else if js_gt v 5000
      then (fst st - 10,
            snd st @ [\<lparr>label = ''Launch Volume'', impact = - 10, status = ''warn'',
                       detail = ''$'' @ toLocaleString js v @ '' '' @ emDash
                                @ '' moderate launch buying''\<rparr>])
      else (fst st,
            snd st @ [\<lparr>label = ''Launch Volume'', impact = 0, status = ''pass'',
                       detail = (if js_gt v 0
                                 then ''$'' @ toLocaleString js v @ '' '' @ emDash @ '' low''
                                 else ''No launch block activity'')\<rparr>]))"

definition holderConcentrationRule :: "js_builtins \<Rightarrow> Analysis \<Rightarrow> score_state \<Rightarrow> score_state" where
  "holderConcentrationRule js analysis st =
     (let c = holdingConcentration analysis in
      if js_gt c 80
      then (fst st - 20,
            snd st @ [\<lparr>label = ''Holder Concentration'', impact = - 20, status = ''fail'',
                       detail = toFixed1 js c @ ''% held by top 20 '' @ emDash
                                @ '' very concentrated''\<rparr>])
      else if js_gt c 60
      then (fst st - 10,
            snd st @ [\<lparr>label = ''Holder Concentration'', impact = - 10, status = ''warn'',
                       detail = toFixed1 js c @ ''% held by top 20 '' @ emDash
                                @ '' concentrated''\<rparr>])
      else (fst st,
            snd st @ [\<lparr>label = ''Holder Concentration'', impact = 0, status = ''pass'',
                       detail = toFixed1 js c @ ''% held by top 20 '' @ emDash
                                @ '' distributed''\<rparr>]))"

definition lpImpactRule :: "js_builtins \<Rightarrow> BundleControlResult \<Rightarrow> score_state \<Rightarrow> score_state" where
  "lpImpactRule js bc st =
     (let r = lpImpactRatio bc in
      if js_gt r 1.5
      then (fst st - 20,
            snd st @ [\<lparr>label = ''LP Impact Ratio'', impact = - 20, status = ''fail'',
                       detail = numToString js r @ ''x '' @ emDash
                                @ '' bundled value far exceeds LP''\<rparr>])
      else if js_gt r 1.0
      then (fst st - 15,
            snd st @ [\<lparr>label = ''LP Impact Ratio'', impact = - 15, status = ''fail'',
                       detail = numToString js r @ ''x '' @ emDash
                                @ '' bundled value exceeds LP''\<rparr>])
      else if js_gt r 0.5
      then (fst st - 10,
            snd st @ [\<lparr>label = ''LP Impact Ratio'', impact = - 10, status = ''warn'',
                       detail = numToString js r @ ''x '' @ emDash
                                @ '' significant LP pressure risk''\<rparr>])
      else (fst st,
            snd st @ [\<lparr>label = ''LP Impact Ratio'', impact = 0, status = ''pass'',
                       detail = numToString js r @ ''x '' @ emDash
                                @ '' manageable LP impact''\<rparr>]))"

definition bundledSupplyRule :: "js_builtins \<Rightarrow> BundleControlResult \<Rightarrow> score_state \<Rightarrow> score_state" where
  "bundledSupplyRule js bc st =
     (let p = totalBundledSupplyPercent bc in
      if js_gt p 30
      then (fst st - 15,
            snd st @ [\<lparr>label = ''Bundled Supply'', impact = - 15, status = ''fail'',
                       detail = numToString js p @ ''% of supply held by bundle clusters''\<rparr>])
      else if js_gt p 10
      then (fst st - 8,
            snd st @ [\<lparr>label = ''Bundled Supply'', impact = - 8, status = ''warn'',
                       detail = numToString js p @ ''% of supply in bundle clusters''\<rparr>])
      else if js_gt p 0
      then (fst st,
            snd st @ [\<lparr>label = ''Bundled Supply'', impact = 0, status = ''pass'',
                       detail = numToString js p @ ''% '' @ emDash
                                @ '' low bundled supply''\<rparr>])
      else st)"

definition deepBundleRules :: "js_builtins \<Rightarrow> BundleControlResult option \<Rightarrow> score_state \<Rightarrow> score_state" where
  "deepBundleRules js bundleControl st =
     (case bundleControl of
        None \<Rightarrow> st
      | Some bc \<Rightarrow>
          (if js_gt (clusterCount bc) 0
           then bundledSupplyRule js bc (lpImpactRule js bc st)
           else st))"

record ScoreResult =
  score :: real
  breakdown :: "ScoreFactor list"

definition calculateScore ::
  "js_builtins \<Rightarrow> jsnum \<Rightarrow> SecurityData option \<Rightarrow> Analysis \<Rightarrow> BundleControlResult option
   \<Rightarrow> ScoreResult" where
  "calculateScore js liquidityUsd security analysis bundleControl =
     (if (case security of None \<Rightarrow> False | Some s \<Rightarrow> is_honeypot s)
      then \<lparr>score = 0, breakdown = [honeypotFactor]\<rparr>
      else
        (let st = (100, []);
             st = mintableRule security st;
             st = buyTaxRule js security st;
             st = sellTaxRule js security st;
             st = sellRestrictionRule security st;
             st = liquidityRule js liquidityUsd st;
             st = bundleActivityRule js analysis st;
             st = launchVolumeRule js analysis st;
             st = holderConcentrationRule js analysis st;
             st = deepBundleRules js bundleControl st
         in \<lparr>score = max 0 (min 100 (fst st)), breakdown = snd st\<rparr>))"

section \<open>Forensic analysis (scanEngine: analyzeForensics)\<close>

record NormalizedHolder =
  address :: string
  balance :: jsnum
  percentage :: jsnum
  usdValue :: jsnum

record NormalizedTransfer =
  txHash :: string
  blockNumber :: jsnum
  buyerAddress :: string
  sellerAddress :: string
  tokenAmount :: jsnum
  usdValue :: jsnum
  transactionType :: string

record ForensicData =
  holders :: "NormalizedHolder list"
  block0Transfers :: "NormalizedTransfer list"
  earlyTransfers :: "NormalizedTransfer list"
  creationBlock :: jsnum
  chain :: string

definition ZERO_ADDRESSES :: "string list" where
  "ZERO_ADDRESSES =
     [''0x0000000000000000000000000000000000000000'',
      ''0x0000000000000000000000000000000000000001'',
      ''11111111111111111111111111111111'',
      []]"

definition isZeroAddress :: "string \<Rightarrow> bool" where
  "isZeroAddress addr = (addr \<in> set ZERO_ADDRESSES)"

record AnalysisResult =
  sniperCount :: nat
  block0Volume :: jsnum
  earlyVolume :: jsnum
  bundleVolumeUSD :: jsnum
  totalBundlePercentage :: jsnum
  holdingConcentration :: jsnum
  uniqueFundingSources :: nat
  hasBundleCluster :: bool
  block0Buyers :: "string list"

definition emptyAnalysisResult :: AnalysisResult where
  "emptyAnalysisResult =
     \<lparr>sniperCount = 0, block0Volume = Fin 0, earlyVolume = Fin 0, bundleVolumeUSD = Fin 0,
      totalBundlePercentage = Fin 0, holdingConcentration = Fin 0, uniqueFundingSources = 0,
      hasBundleCluster = False, block0Buyers = []\<rparr>"

text \<open>
  Step 1, the body of the loop over \<open>block0Transfers\<close>; the state is
  \<open>(block0Buyers, block0Volume)\<close>. \<open>!buyer\<close> holds for the empty string.
\<close>

definition block0Step ::
  "bool \<Rightarrow> jsnum \<Rightarrow> string list \<times> jsnum \<Rightarrow> NormalizedTransfer \<Rightarrow> string list \<times> jsnum" where
  "block0Step isSolana priceUsd st tx =
     (let buyer = buyerAddress tx; seller = sellerAddress tx in
      if \<not> isSolana \<and> isZeroAddress seller then st
      else if buyer = [] \<or> isZeroAddress buyer then st
      else (set_add buyer (fst st),
            if js_gt (usdValue tx) 0
            then js_add (snd st) (usdValue tx)
            else js_add (snd st) (js_mul (tokenAmount tx) priceUsd)))"

text \<open>
  Step 2, the body of the loop over \<open>earlyTransfers\<close>; the state is
  \<open>(earlyBuyers, fundingSources, earlyVolume)\<close>.
\<close>

definition earlyStep ::
  "bool \<Rightarrow> jsnum \<Rightarrow> string list \<times> string list \<times> jsnum \<Rightarrow> NormalizedTransfer
   \<Rightarrow> string list \<times> string list \<times> jsnum" where
  "earlyStep isSolana priceUsd st tx =
     (let buyer = buyerAddress tx; seller = sellerAddress tx;
          earlyBuyers = fst st; fundingSources = fst (snd st); earlyVolume = snd (snd st) in
      if \<not> isSolana \<and> isZeroAddress seller then st
      else if buyer = [] \<or> isZeroAddress buyer then st
      else (set_add buyer earlyBuyers,
            (if seller \<noteq> [] \<and> \<not> isZeroAddress seller
             then set_add seller fundingSources else fundingSources),
            (if js_gt (usdValue tx) 0
             then js_add earlyVolume (usdValue tx)
             else js_add earlyVolume (js_mul (tokenAmount tx) priceUsd))))"

text \<open>
  Step 3 on account-model chains. \<open>sourceToRecipients\<close> is a plain object used as a
  dictionary: it is an association list in insertion order. Reading a key that
  \<open>Object.prototype\<close> defines gives the inherited (truthy) value, so no set is created
  and the call of \<open>add\<close> on it raises a TypeError.
\<close>

datatype js_error = TypeError

definition objectPrototypeKeys :: "string list" where
  "objectPrototypeKeys =
     [''constructor'', ''__defineGetter__'', ''__defineSetter__'', ''hasOwnProperty'',
      ''__lookupGetter__'', ''__lookupSetter__'', ''isPrototypeOf'',
      ''propertyIsEnumerable'', ''toString'', ''valueOf'', ''__proto__'',
      ''toLocaleString'']"

definition fanOutStep ::
  "(string \<times> string list) list \<Rightarrow> NormalizedTransfer
   \<Rightarrow> js_error + (string \<times> string list) list" where
  "fanOutStep sourceToRecipients tx =
     (let seller = sellerAddress tx; buyer = buyerAddress tx in
      if \<not> isZeroAddress seller \<and> buyer \<noteq> [] \<and> \<not> isZeroAddress buyer
      then (if seller \<in> set objectPrototypeKeys then Inl TypeError
            else (case map_of sourceToRecipients seller of
                    None \<Rightarrow> Inr (sourceToRecipients @ [(seller, [buyer])])
                  | Some _ \<Rightarrow>
                      Inr (map (\<lambda>kv. if fst kv = seller
                                      then (fst kv, set_add buyer (snd kv)) else kv)
                             sourceToRecipients)))
      else Inr sourceToRecipients)"

fun fanOut ::
  "(string \<times> string list) list \<Rightarrow> NormalizedTransfer list
   \<Rightarrow> js_error + (string \<times> string list) list" where
  "fanOut m [] = Inr m"
| "fanOut m (tx # txs) =
     (case fanOutStep m tx of Inl e \<Rightarrow> Inl e | Inr m' \<Rightarrow> fanOut m' txs)"

definition analyzeForensics ::
  "ForensicData option \<Rightarrow> jsnum \<Rightarrow> jsnum \<Rightarrow> string \<Rightarrow> js_error + AnalysisResult" where
  "analyzeForensics forensics priceUsd fdv chainId =
     (case forensics of
        None \<Rightarrow> Inr emptyAnalysisResult
      | Some f \<Rightarrow>
         (let isSolana = (chainId = ''solana'');
              b0 = foldl (block0Step isSolana priceUsd) ([], Fin 0) (block0Transfers f);
              block0Buyers = fst b0;
              block0Volume = snd b0;
              e = foldl (earlyStep isSolana priceUsd) ([], [], Fin 0) (earlyTransfers f);
              earlyBuyers = fst e;
              fundingSources = fst (snd e);
              earlyVolume = snd (snd e);
              holdingConcentration =
                foldl (\<lambda>acc h. js_add acc (percentage h)) (Fin 0) (holders f);
              totalBundlePercentage =
                (if js_gt fdv 0 then js_mul (js_div block0Volume fdv) (Fin 100) else Fin 0);
              uniqueFundingSources =
                (if isSolana then length earlyBuyers else length fundingSources);
              finish = (\<lambda>hasBundleCluster bundleVolumeUSD.
                \<lparr>sniperCount = length block0Buyers,
                 block0Volume = block0Volume,
                 earlyVolume = earlyVolume,
                 bundleVolumeUSD = (if hasBundleCluster then bundleVolumeUSD else block0Volume),
                 totalBundlePercentage = totalBundlePercentage,
                 holdingConcentration = holdingConcentration,
                 uniqueFundingSources = uniqueFundingSources,
                 hasBundleCluster = hasBundleCluster,
                 block0Buyers = block0Buyers\<rparr>)
          in
          if isSolana
          then (let hasBundleCluster = (3 \<le> length block0Buyers) in
                if \<not> hasBundleCluster \<and> 5 \<le> length earlyBuyers
                then Inr (finish True earlyVolume)
                else Inr (finish hasBundleCluster block0Volume))
          else (case fanOut [] (earlyTransfers f) of
                  Inl err \<Rightarrow> Inl err
                | Inr sourceToRecipients \<Rightarrow>
                    Inr (finish (list_ex (\<lambda>kv. 3 \<le> length (snd kv)) sourceToRecipients)
                           block0Volume))))"

section \<open>Wallet list (scanEngine: buildWalletList)\<close>

record WalletNode =
  address :: string
  isBundler :: bool
  fundingSource :: string
  holdingAmount :: jsnum
  percentage :: jsnum

definition buildWalletList ::
  "ForensicData option \<Rightarrow> string list \<Rightarrow> jsnum \<Rightarrow> string \<Rightarrow> WalletNode list" where
  "buildWalletList forensics buyers priceUsd chainId =
     (case forensics of
        None \<Rightarrow> []
      | Some f \<Rightarrow>
          (let isSolana = (chainId = ''solana'') in
           map (\<lambda>(idx, h).
                  (let isBundler = (NormalizedHolder.address h \<in> set buyers) in
                   \<lparr>address = NormalizedHolder.address h,
                    isBundler = isBundler,
                    fundingSource =
                      (if idx = 0 then ''Deployer''
                       else if isBundler then ''Bundle Buyer'' else ''Unknown''),
                    holdingAmount =
                      (if isSolana then NormalizedHolder.usdValue h
                       else js_mul (balance h) priceUsd),
                    percentage = NormalizedHolder.percentage h\<rparr>))
               (enumerate 0 (take 20 (holders f)))))"

section \<open>Distribution-tree trace on Solana (heliusService)\<close>

text \<open>
  Timestamps are finite numbers and are modelled as reals; token and lamport amounts are
  JavaScript numbers. The fields \<open>from\<close> and \<open>to\<close> of the source are named
  \<open>fromAddr\<close> and \<open>toAddr\<close>. A missing \<open>tokenTransfers\<close> or \<open>nativeTransfers\<close>
  array is the empty list: the source tests for it before every use.
\<close>

record HeliusTokenTransfer =
  fromUserAccount :: string
  toUserAccount :: string
  tokenAmount :: jsnum
  mint :: string

record HeliusNativeTransfer =
  fromUserAccount :: string
  toUserAccount :: string
  amount :: jsnum

record HeliusTransaction =
  signature :: string
  type :: string
  source :: string
  slot :: jsnum
  timestamp :: real
  feePayer :: string
  tokenTransfers :: "HeliusTokenTransfer list"
  nativeTransfers :: "HeliusNativeTransfer list"

record FundingSource =
  address :: string
  amount :: jsnum
  timestamp :: real
  isCex :: bool

record Swap =
  tokenAmount :: jsnum
  timestamp :: real

record OutgoingTransfer =
  toAddr :: string
  tokenAmount :: jsnum
  timestamp :: real

record IncomingTransfer =
  fromAddr :: string
  tokenAmount :: jsnum
  timestamp :: real

record HeliusWalletData =
  address :: string
  buys :: "Swap list"
  sells :: "Swap list"
  outgoingTransfers :: "OutgoingTransfer list"
  incomingTransfers :: "IncomingTransfer list"
  currentBalance :: jsnum
  isSeedWallet :: bool
  traceDepth :: nat
  fundingSource :: "FundingSource option"

definition EXCLUDED_ADDRESSES :: "string list" where
  "EXCLUDED_ADDRESSES =
     [''11111111111111111111111111111111'',
      ''TokenkegQfeZyiNwAJbNbGKPFXCWuBvf9Ss623VQ5DA'',
      ''ATokenGPvbdGVxr1b2hvZbsiqW5xWH25efTNsLJA8knL'',
      ''So11111111111111111111111111111111111111112'',
      ''JUP6LkbZbjS1jKKwapdHNy74zcZ3tLUZoi5QNyVTaV4'',
      ''JUP4Fb2cqiRUcaTHdrPC8h2gNsA2ETXiPDD33WcGuJB'',
      ''whirLbMiicVdio4qvUfM5KAg6Ct8VwpYzGff3uctyCc'',
      ''675kPX9MHTjS2zt1qfr1NYHuzeLXfQM9H24wFSUt1Mp8'',
      ''5Q544fKrFoe6tsEbD7S8EmxGTJYAKtTVhAW5Q5pge4j1'',
      ''CAMMCzo5YL8w4VFF8KVHrK22GGUsp5VTaW7grrKgrWqK'',
      ''CPMMoo8L3F4NbTegBCKVNunggL7H1ZpdTHKxQB5qKP1C'',
      ''6EF8rrecthR5Dkzon8Nwu78hRvfCKubJ14M5uBEwF6P'',
      ''Ce6TQqeHC9p8KetsN6JsjHK7UTZk7nasjjQ7GWkRjQpM'',
      ''CebN5WGQ4jvEPvsVU4EoHEpgzq1VV7AbicfhtW4xC9iM'',
      ''39azUYFWPz3VHgKCf3VChUwbpURdCHRxjWVowf5jUJjg'']"

definition KNOWN_CEX_ADDRESSES :: "string list" where
  "KNOWN_CEX_ADDRESSES =
     [''5tzFkiKscXHK5ZXCGbXZxdw7gTjjD1mBwuoFbhUvuAi9'',
      ''9WzDXwBbmkg8ZTbNMqUxvQRAyrZzDsGYdLVL9zYtAWWM'',
      ''53unSgGWqEWANcPYRF35B2Bgf8BkszUtcccKiXwGGLyr'',
      ''GJRs4FwHtemZ5ZE9x3FNvJ8TMwitKTh21yxdRPqn7npE'',
      ''2AQdpHJ2JpcEgPiATUXjQxA8QmafFegfBKCoF3gKsGb2'',
      ''6LY1JzAFVZsP2a2xKrtU6znQMQ5h4i7tocWdgrkZzkzF'',
      ''is6MTRHEgyFLNTfYcuV4QBWLjrZBfmhVNYR6ccgr8KV'',
      ''AC5RDfQFmDS1deWZos921JfqscXdByf8BKHm5xd8nudL'',
      ''5Q544fKrFoe6tsEbD7S8EmxGTJYAKtTVhAW5Q5pge4j1'']"

definition isExcludedAddress :: "string \<Rightarrow> bool" where
  "isExcludedAddress addr =
     (if addr = [] \<or> length addr < 20 then True
      else if addr \<in> set EXCLUDED_ADDRESSES then True
      else False)"

text \<open>
  The Helius adapter. Every wallet fetch of one trace has a sequence number, so that two
  fetches of the same address may answer differently; \<open>dateNow\<close> is \<open>Date.now()\<close>
  (milliseconds) at that fetch. A failed request is the empty list or balance 0, as
  the source's handlers return.
\<close>

record helius_adapter =
  fetchWalletTransactions :: "nat \<Rightarrow> string \<Rightarrow> HeliusTransaction list"
  getWalletTokenBalance :: "nat \<Rightarrow> string \<Rightarrow> jsnum"
  dateNow :: "nat \<Rightarrow> real"

text \<open>
  \<open>traceFundingSource\<close>. \<open>sort\<close> with the comparator \<open>b.timestamp - a.timestamp\<close> is
  a stable sort by descending timestamp.
\<close>

definition traceFundingSource ::
  "HeliusTransaction list \<Rightarrow> string \<Rightarrow> real \<Rightarrow> FundingSource option" where
  "traceFundingSource txs wallet firstBuyTimestamp =
     (let fundingTxs =
            filter (\<lambda>tx. list_ex (\<lambda>nt. HeliusNativeTransfer.toUserAccount nt = wallet
                                         \<and> js_gt (HeliusNativeTransfer.amount nt) 10000000)
                             (nativeTransfers tx)) txs;
          sortedTxs = sort_key (\<lambda>tx. - HeliusTransaction.timestamp tx) fundingTxs;
          best =
            (case find (\<lambda>tx. HeliusTransaction.timestamp tx < firstBuyTimestamp
                              \<and> HeliusTransaction.timestamp tx > firstBuyTimestamp - 86400)
                    sortedTxs of
               Some b \<Rightarrow> Some b
             | None \<Rightarrow> (if 0 < length sortedTxs then Some (last sortedTxs) else None))
      in case best of
           None \<Rightarrow> None
         | Some b \<Rightarrow>
             (case find (\<lambda>nt. HeliusNativeTransfer.toUserAccount nt = wallet)
                     (nativeTransfers b) of
                None \<Rightarrow> None
              | Some transfer \<Rightarrow>
                  (let sender = HeliusNativeTransfer.fromUserAccount transfer in
                   Some \<lparr>FundingSource.address = sender,
                         FundingSource.amount = HeliusNativeTransfer.amount transfer,
                         FundingSource.timestamp = HeliusTransaction.timestamp b,
                         FundingSource.isCex = (sender \<in> set KNOWN_CEX_ADDRESSES)\<rparr>)))"

text \<open>\<open>parseSwaps\<close>: the state of the two nested loops is \<open>(buys, sells)\<close>.\<close>

definition parseSwapsTransfer ::
  "string \<Rightarrow> string \<Rightarrow> real \<Rightarrow> Swap list \<times> Swap list \<Rightarrow> HeliusTokenTransfer
   \<Rightarrow> Swap list \<times> Swap list" where
  "parseSwapsTransfer wallet mintAddress ts st tt =
     (if mint tt \<noteq> mintAddress then st
      else if js_le (HeliusTokenTransfer.tokenAmount tt) 0 then st
      else if HeliusTokenTransfer.toUserAccount tt = wallet
              \<and> HeliusTokenTransfer.fromUserAccount tt \<noteq> wallet
      then (fst st @ [\<lparr>Swap.tokenAmount = HeliusTokenTransfer.tokenAmount tt,
                        Swap.timestamp = ts\<rparr>],
            snd st)
      else if HeliusTokenTransfer.fromUserAccount tt = wallet
              \<and> HeliusTokenTransfer.toUserAccount tt \<noteq> wallet
      then (fst st,
            snd st @ [\<lparr>Swap.tokenAmount = HeliusTokenTransfer.tokenAmount tt,
                        Swap.timestamp = ts\<rparr>])
      else st)"

definition parseSwapsTx ::
  "string \<Rightarrow> string \<Rightarrow> Swap list \<times> Swap list \<Rightarrow> HeliusTransaction \<Rightarrow> Swap list \<times> Swap list" where
  "parseSwapsTx wallet mintAddress st tx =
     (if tokenTransfers tx = [] then st
      else (let isSwapLike = (type tx = ''SWAP'' \<or> type tx = ''UNKNOWN''
                              \<or> source tx = ''PUMP_FUN'') in
            if \<not> isSwapLike then st
            else foldl (parseSwapsTransfer wallet mintAddress (HeliusTransaction.timestamp tx))
                   st (tokenTransfers tx)))"

definition parseSwaps ::
  "HeliusTransaction list \<Rightarrow> string \<Rightarrow> string \<Rightarrow> Swap list \<times> Swap list" where
  "parseSwaps allTxs wallet mintAddress = foldl (parseSwapsTx wallet mintAddress) ([], []) allTxs"

text \<open>\<open>parseTransfers\<close>: the state is \<open>(outgoingTransfers, incomingTransfers)\<close>.\<close>

definition parseTransfersTransfer ::
  "string \<Rightarrow> string \<Rightarrow> real \<Rightarrow> OutgoingTransfer list \<times> IncomingTransfer list
   \<Rightarrow> HeliusTokenTransfer \<Rightarrow> OutgoingTransfer list \<times> IncomingTransfer list" where
  "parseTransfersTransfer wallet mintAddress ts st tt =
     (if mint tt \<noteq> mintAddress then st
      else if js_le (HeliusTokenTransfer.tokenAmount tt) 0 then st
      else if HeliusTokenTransfer.fromUserAccount tt = HeliusTokenTransfer.toUserAccount tt
      then st
      else if isExcludedAddress (HeliusTokenTransfer.fromUserAccount tt)
              \<or> isExcludedAddress (HeliusTokenTransfer.toUserAccount tt) then st
      else if HeliusTokenTransfer.fromUserAccount tt = wallet
      then (fst st @ [\<lparr>OutgoingTransfer.toAddr = HeliusTokenTransfer.toUserAccount tt,
                        OutgoingTransfer.tokenAmount = HeliusTokenTransfer.tokenAmount tt,
                        OutgoingTransfer.timestamp = ts\<rparr>],
            snd st)
      else if HeliusTokenTransfer.toUserAccount tt = wallet
      then (fst st,
            snd st @ [\<lparr>IncomingTransfer.fromAddr = HeliusTokenTransfer.fromUserAccount tt,
                        IncomingTransfer.tokenAmount = HeliusTokenTransfer.tokenAmount tt,
                        IncomingTransfer.timestamp = ts\<rparr>])
      else st)"

definition parseTransfersTx ::
  "string \<Rightarrow> string \<Rightarrow> OutgoingTransfer list \<times> IncomingTransfer list \<Rightarrow> HeliusTransaction
   \<Rightarrow> OutgoingTransfer list \<times> IncomingTransfer list" where
  "parseTransfersTx wallet mintAddress st tx =
     (if tokenTransfers tx = [] then st
      else foldl (parseTransfersTransfer wallet mintAddress (HeliusTransaction.timestamp tx))
             st (tokenTransfers tx))"

definition parseTransfers ::
  "HeliusTransaction list \<Rightarrow> string \<Rightarrow> string
   \<Rightarrow> OutgoingTransfer list \<times> IncomingTransfer list" where
  "parseTransfers allTxs wallet mintAddress =
     foldl (parseTransfersTx wallet mintAddress) ([], []) allTxs"

text \<open>
  \<open>buys[0]?.timestamp || Date.now() / 1000\<close>: the clock is used when there is no buy
  and when the first buy's timestamp is 0.
\<close>

definition firstBuyTimestampOf :: "Swap list \<Rightarrow> real \<Rightarrow> real" where
  "firstBuyTimestampOf bs now =
     (case bs of
        [] \<Rightarrow> now / 1000
      | b # _ \<Rightarrow> (if Swap.timestamp b = 0 then now / 1000 else Swap.timestamp b))"

text \<open>
  \<open>fetchFullWalletData\<close> and \<open>fetchTransferWalletData\<close>; \<open>n\<close> is the sequence number
  of the fetch.
\<close>

definition fetchFullWalletData ::
  "helius_adapter \<Rightarrow> nat \<Rightarrow> string \<Rightarrow> string \<Rightarrow> bool \<Rightarrow> nat \<Rightarrow> HeliusWalletData" where
  "fetchFullWalletData A n wallet mintAddress isSeed depth =
     (let allTxs = fetchWalletTransactions A n wallet;
          bal = getWalletTokenBalance A n wallet;
          sw = parseSwaps allTxs wallet mintAddress;
          tr = parseTransfers allTxs wallet mintAddress;
          funding = traceFundingSource allTxs wallet
                      (firstBuyTimestampOf (fst sw) (dateNow A n))
      in \<lparr>address = wallet, buys = fst sw, sells = snd sw,
          outgoingTransfers = fst tr, incomingTransfers = snd tr,
          currentBalance = bal, isSeedWallet = isSeed, traceDepth = depth,
          fundingSource = funding\<rparr>)"

definition fetchTransferWalletData ::
  "helius_adapter \<Rightarrow> nat \<Rightarrow> string \<Rightarrow> string \<Rightarrow> nat \<Rightarrow> HeliusWalletData" where
  "fetchTransferWalletData A n wallet mintAddress depth =
     (let allTxs = fetchWalletTransactions A n wallet;
          bal = getWalletTokenBalance A n wallet;
          sw = parseSwaps allTxs wallet mintAddress;
          tr = parseTransfers allTxs wallet mintAddress;
          funding = traceFundingSource allTxs wallet
                      (firstBuyTimestampOf (fst sw) (dateNow A n))
      in \<lparr>address = wallet, buys = fst sw, sells = snd sw,
          outgoingTransfers = fst tr, incomingTransfers = snd tr,
          currentBalance = bal, isSeedWallet = False, traceDepth = depth,
          fundingSource = funding\<rparr>)"

definition MAX_TOTAL_WALLETS :: nat where
  "MAX_TOTAL_WALLETS = 400"

text \<open>
  \<open>xs.slice(0, k)\<close>: a negative \<open>k\<close> counts from the end of the array.
\<close>

definition js_slice0 :: "'a list \<Rightarrow> int \<Rightarrow> 'a list" where
  "js_slice0 xs k =
     (if 0 \<le> k then take (nat k) xs else take (nat (int (length xs) + k)) xs)"

text \<open>
  The state of a trace is \<open>(knownAddresses, results)\<close>. The two tracers of the
  repository share the shape of their loops and differ in the exclusion test and in
  the fetch of one wallet, which are parameters here; the sequence number of a fetch is
  the number of nodes collected before it. Level 0: the loop over the seed addresses.
\<close>

type_synonym trace_state = "string list \<times> HeliusWalletData list"

definition seedStep ::
  "(string \<Rightarrow> bool) \<Rightarrow> (nat \<Rightarrow> string \<Rightarrow> HeliusWalletData) \<Rightarrow> trace_state \<Rightarrow> string
   \<Rightarrow> trace_state" where
  "seedStep excluded fetch st wallet =
     (if excluded wallet then st
      else (set_add wallet (fst st), snd st @ [fetch (length (snd st)) wallet]))"

text \<open>
  The recipients of the next level: every \<open>to\<close> of an outgoing transfer of the given
  nodes that is neither known nor excluded, in a \<open>Set\<close>.
\<close>

definition collectRecipients ::
  "(string \<Rightarrow> bool) \<Rightarrow> string list \<Rightarrow> HeliusWalletData list \<Rightarrow> string list" where
  "collectRecipients excluded known ws =
     foldl (\<lambda>acc w.
              foldl (\<lambda>acc t. if toAddr t \<notin> set known \<and> \<not> excluded (toAddr t)
                              then set_add (toAddr t) acc else acc)
                acc (outgoingTransfers w))
       [] ws"

text \<open>Levels 1 and 2: the loop leaves at the first wallet that finds the cap reached.\<close>

fun levelLoop ::
  "(nat \<Rightarrow> string \<Rightarrow> HeliusWalletData) \<Rightarrow> string list \<Rightarrow> trace_state \<Rightarrow> trace_state" where
  "levelLoop fetch [] st = st"
| "levelLoop fetch (wallet # rest) st =
     (if MAX_TOTAL_WALLETS \<le> length (snd st) then st
      else levelLoop fetch rest
             (set_add wallet (fst st), snd st @ [fetch (length (snd st)) wallet]))"

text \<open>
  Level 3: \<open>batchGetBalances\<close> fills a \<open>Map\<close> from address to balance, in the order of
  the (duplicate-free) array; the fetch of the \<open>i\<close>-th address has sequence number
  \<open>base + i\<close>.
\<close>

definition batchGetBalances ::
  "(nat \<Rightarrow> string \<Rightarrow> jsnum) \<Rightarrow> nat \<Rightarrow> string list \<Rightarrow> (string \<times> jsnum) list" where
  "batchGetBalances getBalance base addresses =
     map (\<lambda>(i, addr). (addr, getBalance (base + i) addr)) (enumerate 0 addresses)"

fun level3Loop :: "(string \<times> jsnum) list \<Rightarrow> trace_state \<Rightarrow> trace_state" where
  "level3Loop [] st = st"
| "level3Loop ((addr, bal) # rest) st =
     (if MAX_TOTAL_WALLETS \<le> length (snd st) then st
      else level3Loop rest
             (set_add addr (fst st),
              snd st @ [\<lparr>address = addr, buys = [], sells = [],
                         outgoingTransfers = [], incomingTransfers = [],
                         currentBalance = bal, isSeedWallet = False, traceDepth = 3,
                         fundingSource = None\<rparr>]))"

text \<open>\<open>traceDistributionTree\<close>; \<open>apiKey\<close> is the result of \<open>getApiKey()\<close>.\<close>

definition traceDistributionTree ::
  "string \<Rightarrow> helius_adapter \<Rightarrow> string list \<Rightarrow> string \<Rightarrow> HeliusWalletData list" where
  "traceDistributionTree apiKey A seedAddresses mintAddress =
     (if apiKey = [] then []
      else
        (let st0 = foldl (seedStep isExcludedAddress
                          (\<lambda>n w. fetchFullWalletData A n w mintAddress True 0))
                    ([], []) seedAddresses;
             level1Addresses = collectRecipients isExcludedAddress (fst st0) (snd st0);
             level1Array = js_slice0 level1Addresses
                 (min (int (length level1Addresses))
                      (int MAX_TOTAL_WALLETS - int (length (snd st0))));
             st1 = levelLoop (\<lambda>n w. fetchTransferWalletData A n w mintAddress 1)
                     level1Array st0;
             level1Results = filter (\<lambda>r. traceDepth r = 1) (snd st1);
             level2Addresses = collectRecipients isExcludedAddress (fst st1) level1Results;
             level2Array = js_slice0 level2Addresses
                 (min (int (length level2Addresses))
                      (int MAX_TOTAL_WALLETS - int (length (snd st1))));
             st2 = levelLoop (\<lambda>n w. fetchTransferWalletData A n w mintAddress 2)
                     level2Array st1;
             level2Results = filter (\<lambda>r. traceDepth r = 2) (snd st2);
             level3Addresses = collectRecipients isExcludedAddress (fst st2) level2Results;
             level3Array = js_slice0 level3Addresses
                 (min (int (length level3Addresses))
                      (int MAX_TOTAL_WALLETS - int (length (snd st2))));
             st3 = (if 0 < length level3Array
                    then level3Loop
                           (batchGetBalances (getWalletTokenBalance A) (length (snd st2))
                              level3Array) st2
                    else st2)
         in snd st3))"

section \<open>Distribution-tree trace on EVM chains (alchemyService)\<close>

text \<open>
  \<open>toLowerCase\<close> on the ASCII letters; other bytes are left as they are (addresses are
  ASCII).
\<close>

definition toLowerCase :: "string \<Rightarrow> string" where
  "toLowerCase s =
     map (\<lambda>c. if 65 \<le> (of_char c :: nat) \<and> (of_char c :: nat) \<le> 90
               then char_of ((of_char c :: nat) + 32) else c) s"

record AlchemyTransfer =
  fromAddr :: string
  toAddr :: string
  val :: jsnum
  hash :: string
  blockNum :: string

definition EVM_EXCLUDED_ADDRESSES :: "string list" where
  "EVM_EXCLUDED_ADDRESSES =
     [''0x0000000000000000000000000000000000000000'',
      ''0x000000000000000000000000000000000000dead'',
      ''0x7a250d5630b4cf539739df2c5dacb4c659f2488d'',
      ''0x68b3465833fb72a70ecdf485e0e4c7bd8665fc45'',
      ''0x1111111254fb6c44bac0bed2854e76f90643097d'',
      ''0xdef1c0ded9bec7f1a1670819833240f027b25eff'']"

definition isExcluded :: "string \<Rightarrow> bool" where
  "isExcluded addr = (toLowerCase addr \<in> set EVM_EXCLUDED_ADDRESSES)"

text \<open>
  The Alchemy adapter, with sequence numbers as for Helius. \<open>getAssetTransfers\<close> is the
  concatenation of the outgoing and the incoming transfers of the wallet, or the empty
  list when a request fails.
\<close>

record alchemy_adapter =
  getAssetTransfers :: "nat \<Rightarrow> string \<Rightarrow> AlchemyTransfer list"
  getTokenBalance :: "nat \<Rightarrow> string \<Rightarrow> jsnum"

text \<open>\<open>classifyTransfers\<close>: the state is \<open>(outgoingTransfers, incomingTransfers)\<close>.\<close>

definition classifyStep ::
  "string \<Rightarrow> OutgoingTransfer list \<times> IncomingTransfer list \<Rightarrow> AlchemyTransfer
   \<Rightarrow> OutgoingTransfer list \<times> IncomingTransfer list" where
  "classifyStep wallet st t =
     (if toLowerCase (AlchemyTransfer.fromAddr t) = toLowerCase wallet
      then (fst st @ [\<lparr>OutgoingTransfer.toAddr = AlchemyTransfer.toAddr t,
                        OutgoingTransfer.tokenAmount = val t,
                        OutgoingTransfer.timestamp = 0\<rparr>],
            snd st)
      else (fst st,
            snd st @ [\<lparr>IncomingTransfer.fromAddr = AlchemyTransfer.fromAddr t,
                        IncomingTransfer.tokenAmount = val t,
                        IncomingTransfer.timestamp = 0\<rparr>]))"

definition classifyTransfers ::
  "AlchemyTransfer list \<Rightarrow> string \<Rightarrow> OutgoingTransfer list \<times> IncomingTransfer list" where
  "classifyTransfers transfers wallet = foldl (classifyStep wallet) ([], []) transfers"

definition fetchEvmWalletData ::
  "alchemy_adapter \<Rightarrow> nat \<Rightarrow> string \<Rightarrow> bool \<Rightarrow> nat \<Rightarrow> HeliusWalletData" where
  "fetchEvmWalletData A n wallet isSeed depth =
     (let transfers = getAssetTransfers A n wallet;
          bal = getTokenBalance A n wallet;
          c = classifyTransfers transfers wallet
      in \<lparr>address = wallet, buys = [], sells = [],
          outgoingTransfers = fst c, incomingTransfers = snd c,
          currentBalance = bal, isSeedWallet = isSeed, traceDepth = depth,
          fundingSource = None\<rparr>)"

text \<open>
  \<open>traceEvmDistributionTree\<close>. The token address and the chain id of the source only
  select what the adapter is asked; they are part of the adapter here. At level 3 the
  balances enter the \<open>Map\<close> as their requests complete; the model takes them in the order
  of the requests.
\<close>

definition traceEvmDistributionTree ::
  "string \<Rightarrow> alchemy_adapter \<Rightarrow> string list \<Rightarrow> HeliusWalletData list" where
  "traceEvmDistributionTree apiKey A seedAddresses =
     (if apiKey = [] then []
      else
        (let st0 = foldl (seedStep isExcluded (\<lambda>n w. fetchEvmWalletData A n w True 0))
                     ([], []) seedAddresses;
             level1Addresses = collectRecipients isExcluded (fst st0) (snd st0);
             level1Array = js_slice0 level1Addresses
                 (int MAX_TOTAL_WALLETS - int (length (snd st0)));
             st1 = levelLoop (\<lambda>n w. fetchEvmWalletData A n w False 1) level1Array st0;
             level2Addresses = collectRecipients isExcluded (fst st1)
                 (filter (\<lambda>r. traceDepth r = 1) (snd st1));
             level2Array = js_slice0 level2Addresses
                 (int MAX_TOTAL_WALLETS - int (length (snd st1)));
             st2 = levelLoop (\<lambda>n w. fetchEvmWalletData A n w False 2) level2Array st1;
             level3Addresses = collectRecipients isExcluded (fst st2)
                 (filter (\<lambda>r. traceDepth r = 2) (snd st2));
             level3Array = js_slice0 level3Addresses
                 (int MAX_TOTAL_WALLETS - int (length (snd st2)));
             st3 = (if 0 < length level3Array
                    then level3Loop
                           (batchGetBalances (getTokenBalance A) (length (snd st2)) level3Array)
                           st2
                    else st2)
         in snd st3))"

section \<open>The scan (scanEngine: runFullScan, buildEmptyResult)\<close>

datatype RiskLevel = SAFE | CAUTION | DANGER | CRITICAL

datatype ThreatType = ORGANIC_GROWTH | ACCUMULATION_PHASE | DISTRIBUTION_PHASE | UNKNOWN

datatype ForensicsStatus = SUCCESS | MISSING_KEY | NOT_SUPPORTED | ERROR

text \<open>
  The result of a scan, without the fields that only copy the trading pairs for display.
  Of \<open>analysis\<close> the result keeps the fields that the score depends on.
\<close>

record ScanResult =
  score :: real
  riskLevel :: RiskLevel
  threatType :: ThreatType
  forensicsStatus :: ForensicsStatus
  scoreBreakdown :: "ScoreFactor list"
  marketCap :: jsnum
  tokenName :: string
  tokenSymbol :: string
  priceUsd :: jsnum
  chainId :: string
  isBurned :: bool
  isLocked :: bool
  isSoledOld :: bool
  analysis :: Analysis
  wallets :: "WalletNode list"
  bundleControl :: "BundleControlResult option"

text \<open>A pair as DexScreener returns it; \<open>liquidityUsd\<close> is \<open>liquidity?.usd\<close>.\<close>

record DexPairData =
  chainId :: string
  baseTokenAddress :: string
  baseTokenName :: string
  baseTokenSymbol :: string
  priceUsd :: string
  liquidityUsd :: "jsnum option"
  fdv :: "jsnum option"

text \<open>\<open>x || 0\<close> on an optional number: \<open>undefined\<close>, both zeros and NaN give 0.\<close>

definition orZero :: "jsnum option \<Rightarrow> jsnum" where
  "orZero x =
     (case x of None \<Rightarrow> Fin 0
      | Some v \<Rightarrow> (if v = NaN \<or> v = Fin 0 \<or> v = NegZero then Fin 0 else v))"

datatype forensics_fetch = Returned "ForensicData option" | Failed

text \<open>
  Everything the scan reads from outside for one query: the answers of the pair
  resolver, of the security oracle (\<open>None\<close> also when the check fails) and of the
  forensic provider, the configured keys (the empty string for a missing key), the two
  chain adapters, and \<open>analyzeBundleClusters\<close>, a component of the repository whose
  source is not available (\<open>None\<close> when it raises).
\<close>

record upstream =
  allDexPairs :: "DexPairData list"
  securityData :: "SecurityData option"
  moralisKey :: string
  forensicsFetch :: forensics_fetch
  heliusKey :: string
  alchemyKey :: string
  helius :: helius_adapter
  alchemy :: alchemy_adapter
  analyzeBundleClusters ::
    "HeliusWalletData list \<Rightarrow> jsnum \<Rightarrow> jsnum \<Rightarrow> jsnum \<Rightarrow> string list \<Rightarrow> NormalizedHolder list
     \<Rightarrow> (string \<times> jsnum) list \<Rightarrow> BundleControlResult option"

definition buildEmptyResult :: "string \<Rightarrow> ScanResult" where
  "buildEmptyResult query =
     \<lparr>score = 0, riskLevel = CAUTION, threatType = UNKNOWN,
      forensicsStatus = MISSING_KEY, scoreBreakdown = [],
      marketCap = Fin 0, tokenName = query, tokenSymbol = ''???'',
      priceUsd = Fin 0, chainId = ''unknown'',
      isBurned = False, isLocked = False, isSoledOld = False,
      analysis = \<lparr>bundleWalletCount = Fin 0, block0Volume = Fin 0,
                   holdingConcentration = Fin 0\<rparr>,
      wallets = [], bundleControl = None\<rparr>"

text \<open>
  The \<open>Map\<close> from a launch-window buyer to the sum of the token amounts bought, in
  insertion order; \<open>get(buyer) || 0\<close>.
\<close>

definition block0BuyStep ::
  "(string \<times> jsnum) list \<Rightarrow> NormalizedTransfer \<Rightarrow> (string \<times> jsnum) list" where
  "block0BuyStep m tx =
     (let buyer = buyerAddress tx in
      if buyer = [] then m
      else (let current = orZero (map_of m buyer);
                total = js_add current (NormalizedTransfer.tokenAmount tx) in
            if buyer \<in> fst ` set m
            then map (\<lambda>kv. if fst kv = buyer then (buyer, total) else kv) m
            else m @ [(buyer, total)]))"

definition block0BuyMap :: "ForensicData option \<Rightarrow> (string \<times> jsnum) list" where
  "block0BuyMap forensics =
     (case forensics of None \<Rightarrow> []
      | Some f \<Rightarrow> foldl block0BuyStep [] (block0Transfers f))"

text \<open>
  Step D2, the deep bundle analysis; a failure of the trace or of the labelling leaves
  \<open>bundleControl\<close> undefined.
\<close>

definition deepBundleAnalysis ::
  "upstream \<Rightarrow> ForensicData option \<Rightarrow> AnalysisResult \<Rightarrow> string \<Rightarrow> string \<Rightarrow> jsnum \<Rightarrow> jsnum
   \<Rightarrow> jsnum \<Rightarrow> BundleControlResult option" where
  "deepBundleAnalysis up forensics analysisResult chainName tokenAddress price fdvUsd liquidity =
     (let isSolana = (chainName = ''solana'');
          block0Addresses = block0Buyers analysisResult;
          totalSupply = (if js_gt fdvUsd 0 \<and> js_gt price 0 then js_div fdvUsd price else Fin 0);
          hs = (case forensics of None \<Rightarrow> [] | Some f \<Rightarrow> holders f)
      in
      if isSolana \<and> heliusKey up \<noteq> []
      then (if 0 < length block0Addresses
            then analyzeBundleClusters up
                   (traceDistributionTree (heliusKey up) (helius up) block0Addresses tokenAddress)
                   totalSupply price liquidity block0Addresses hs (block0BuyMap forensics)
            else None)
      else if \<not> isSolana \<and> alchemyKey up \<noteq> []
      then (if 0 < length block0Addresses
            then analyzeBundleClusters up
                   (traceEvmDistributionTree (alchemyKey up) (alchemy up) block0Addresses)
                   totalSupply price liquidity block0Addresses hs (block0BuyMap forensics)
            else None)
      else None)"

text \<open>The risk level of a live scan, from its score.\<close>

definition riskLevelOf :: "real \<Rightarrow> RiskLevel" where
  "riskLevelOf s =
     (if 80 \<le> s then SAFE
      else if 50 \<le> s then CAUTION
      else if 20 \<le> s then DANGER
      else CRITICAL)"

definition threatTypeOf :: "SecurityData option \<Rightarrow> AnalysisResult \<Rightarrow> ThreatType" where
  "threatTypeOf security analysisResult =
     (if (case security of None \<Rightarrow> False | Some s \<Rightarrow> is_honeypot s) then DISTRIBUTION_PHASE
      else if hasBundleCluster analysisResult then ACCUMULATION_PHASE
      else if 5 < sniperCount analysisResult
              \<and> js_gt (AnalysisResult.block0Volume analysisResult) 5000
      then ACCUMULATION_PHASE
      else if 3 < sniperCount analysisResult then ACCUMULATION_PHASE
      else ORGANIC_GROWTH)"

text \<open>The fields of the \<open>analysis\<close> object that the score depends on.\<close>

definition analysisOf :: "AnalysisResult \<Rightarrow> Analysis" where
  "analysisOf analysisResult =
     \<lparr>bundleWalletCount = Fin (real (sniperCount analysisResult)),
      block0Volume = AnalysisResult.block0Volume analysisResult,
      holdingConcentration = AnalysisResult.holdingConcentration analysisResult\<rparr>"

definition placeholderWallet :: WalletNode where
  "placeholderWallet =
     \<lparr>WalletNode.address = ''No holder data available'', isBundler = False, fundingSource = ''N/A'',
      holdingAmount = Fin 0, percentage = Fin 0\<rparr>"

text \<open>
  \<open>runFullScan\<close>. \<open>mockScenarios\<close> is the table \<open>MOCK_SCENARIOS\<close> of the demo results,
  whose source is not available. The scan raises only where \<open>analyzeForensics\<close> does.
\<close>

definition runFullScan ::
  "js_builtins \<Rightarrow> (string \<Rightarrow> ScanResult) \<Rightarrow> upstream \<Rightarrow> string \<Rightarrow> js_error + ScanResult" where
  "runFullScan js mockScenarios up query =
     (let normalized = toUpperCaseTrim js query in
      if normalized = ''RUG'' \<or> normalized = ''VAMPIRE'' then Inr (mockScenarios ''VAMPIRE'')
      else if normalized = ''NEST'' then Inr (mockScenarios ''NEST'')
      else if normalized = ''SAFE'' then Inr (mockScenarios ''SAFE'')
      else
        (case allDexPairs up of
           [] \<Rightarrow> Inr (buildEmptyResult query)
         | bestPair # _ \<Rightarrow>
            (let chainName = DexPairData.chainId bestPair;
                 tokenAddress = baseTokenAddress bestPair;
                 price = parseFloat js (if DexPairData.priceUsd bestPair = [] then ''0''
                                        else DexPairData.priceUsd bestPair);
                 liquidity = orZero (liquidityUsd bestPair);
                 fdvUsd = orZero (fdv bestPair);
                 security = securityData up;
                 forensics =
                   (if moralisKey up = [] then None
                    else (case forensicsFetch up of Returned f \<Rightarrow> f | Failed \<Rightarrow> None));
                 fStatus =
                   (if moralisKey up = [] then MISSING_KEY
                    else (case forensicsFetch up of
                            Returned (Some _) \<Rightarrow> SUCCESS
                          | Returned None \<Rightarrow> NOT_SUPPORTED
                          | Failed \<Rightarrow> ERROR))
             in case analyzeForensics forensics price fdvUsd chainName of
                  Inl err \<Rightarrow> Inl err
                | Inr analysisResult \<Rightarrow>
                   (let bc = deepBundleAnalysis up forensics analysisResult chainName tokenAddress
                               price fdvUsd liquidity;
                        ws = buildWalletList forensics (block0Buyers analysisResult) price chainName;
                        an = analysisOf analysisResult;
                        sc = calculateScore js liquidity security an bc
                    in Inr \<lparr>score = ScoreResult.score sc,
                            riskLevel = riskLevelOf (ScoreResult.score sc),
                            threatType = threatTypeOf security analysisResult,
                            forensicsStatus = fStatus,
                            scoreBreakdown = breakdown sc,
                            marketCap = fdvUsd,
                            tokenName = (if baseTokenName bestPair = []
                                         then baseTokenSymbol bestPair
                                         else baseTokenName bestPair),
                            tokenSymbol = baseTokenSymbol bestPair,
                            priceUsd = price,
                            chainId = chainName,
                            isBurned = (case security of None \<Rightarrow> False
                                        | Some s \<Rightarrow> \<not> is_mintable s),
                            isLocked = (case security of None \<Rightarrow> False
                                        | Some s \<Rightarrow> is_open_source s),
                            isSoledOld = False,
                            analysis = an,
                            wallets = (if 0 < length ws then ws else [placeholderWallet]),
                            bundleControl = bc\<rparr>))))"

section \<open>The specification's vocabulary for the analyzer\<close>

text \<open>
  These definitions follow the words of the specification, not the code; the theorems
  below compare the analyzer with them. A transfer is mint-like noise when, on an
  account-model chain, its seller is a recognized zero/burn address, and on every chain
  when it has no buyer or a zero-address buyer.
\<close>

definition mintLikeNoise :: "bool \<Rightarrow> NormalizedTransfer \<Rightarrow> bool" where
  "mintLikeNoise accountModel tx =
     ((accountModel \<and> isZeroAddress (sellerAddress tx))
      \<or> buyerAddress tx = [] \<or> isZeroAddress (buyerAddress tx))"

text \<open>
  The volume of one transfer: its own USD value if positive, otherwise
  \<open>tokenAmount \<times> priceUsd\<close>.
\<close>

definition transferVolume :: "jsnum \<Rightarrow> NormalizedTransfer \<Rightarrow> jsnum" where
  "transferVolume price tx =
     (if js_gt (usdValue tx) 0 then usdValue tx
      else js_mul (NormalizedTransfer.tokenAmount tx) price)"

text \<open>The distinct buyers of a window and its volume, over the transfers that are not noise.\<close>

definition distinctBuyers :: "bool \<Rightarrow> NormalizedTransfer list \<Rightarrow> string set" where
  "distinctBuyers accountModel txs =
     buyerAddress ` {tx \<in> set txs. \<not> mintLikeNoise accountModel tx}"

definition windowVolume :: "bool \<Rightarrow> jsnum \<Rightarrow> NormalizedTransfer list \<Rightarrow> jsnum" where
  "windowVolume accountModel price txs =
     foldl js_add (Fin 0)
       (map (transferVolume price) (filter (\<lambda>tx. \<not> mintLikeNoise accountModel tx) txs))"

section \<open>Concrete inputs\<close>

text \<open>Stand-ins for the built-ins and for the upstream services, for evaluation.\<close>

definition sampleBuiltins :: js_builtins where
  "sampleBuiltins =
     \<lparr>parseFloat = (\<lambda>s. if s = ''0'' then Fin 0 else if s = ''12.5'' then Fin 12.5 else NaN),
      toLocaleString = (\<lambda>_. ''n''), toFixed1 = (\<lambda>_. ''n''), numToString = (\<lambda>_. ''n''),
      toUpperCaseTrim = (\<lambda>s. s)\<rparr>"

definition sampleHelius :: helius_adapter where
  "sampleHelius =
     \<lparr>fetchWalletTransactions = (\<lambda>_ _. []), getWalletTokenBalance = (\<lambda>_ _. Fin 0),
      dateNow = (\<lambda>_. 0)\<rparr>"

definition sampleAlchemy :: alchemy_adapter where
  "sampleAlchemy = \<lparr>getAssetTransfers = (\<lambda>_ _. []), getTokenBalance = (\<lambda>_ _. Fin 0)\<rparr>"

definition samplePair :: DexPairData where
  "samplePair =
     \<lparr>chainId = ''solana'', baseTokenAddress = ''mint'', baseTokenName = ''Token'',
      baseTokenSymbol = ''TKN'', priceUsd = ''0'', liquidityUsd = Some (Fin 25000),
      fdv = Some (Fin 1000000)\<rparr>"

definition sampleUpstream :: "DexPairData list \<Rightarrow> upstream" where
  "sampleUpstream pairs =
     \<lparr>allDexPairs = pairs, securityData = None, moralisKey = [], forensicsFetch = Failed,
      heliusKey = [], alchemyKey = [], helius = sampleHelius, alchemy = sampleAlchemy,
      analyzeBundleClusters = (\<lambda>_ _ _ _ _ _ _. None)\<rparr>"

definition sampleMocks :: "string \<Rightarrow> ScanResult" where
  "sampleMocks = (\<lambda>_. buildEmptyResult ''demo'')"

definition sampleSecurity :: "bool \<Rightarrow> bool \<Rightarrow> SecurityData" where
  "sampleSecurity honeypot mintable =
     \<lparr>is_honeypot = honeypot, is_mintable = mintable, owner_address = [],
      is_open_source = True, buy_tax = ''0'', sell_tax = ''12.5'', cannot_sell_all = False,
      is_proxy = False, slippage_modifiable = False\<rparr>"

text \<open>
  Scenario C of the specification: 12 bundled wallets, a launch volume of 60000 and a
  holder concentration of 85.
\<close>

definition scenarioC :: Analysis where
  "scenarioC =
     \<lparr>bundleWalletCount = Fin 12, block0Volume = Fin 60000, holdingConcentration = Fin 85\<rparr>"

definition sampleBundleControl :: BundleControlResult where
  "sampleBundleControl =
     \<lparr>clusterCount = Fin 2, lpImpactRatio = Fin 1.25, totalBundledSupplyPercent = Fin 12\<rparr>"

definition transferOf :: "string \<Rightarrow> string \<Rightarrow> jsnum \<Rightarrow> jsnum \<Rightarrow> NormalizedTransfer" where
  "transferOf buyer seller tokens usd =
     \<lparr>txHash = [], blockNumber = Fin 0, buyerAddress = buyer, sellerAddress = seller,
      tokenAmount = tokens, usdValue = usd, transactionType = ''buy''\<rparr>"

definition forensicsOf :: "NormalizedTransfer list \<Rightarrow> NormalizedTransfer list \<Rightarrow> ForensicData" where
  "forensicsOf launch early =
     \<lparr>holders = [], block0Transfers = launch, earlyTransfers = early,
      creationBlock = Fin 0, chain = []\<rparr>"

text \<open>
  401 pairwise different addresses for each tracer, none of them excluded: a fixed
  prefix followed by three digits between 1 and 9.
\<close>

definition seedDigit :: "nat \<Rightarrow> char" where
  "seedDigit d = char_of (49 + d)"

definition heliusSeed :: "nat \<Rightarrow> string" where
  "heliusSeed i =
     ''BuyerSeedWa11etForTheTraceNr1''
       @ [seedDigit (i div 81), seedDigit (i div 9 mod 9), seedDigit (i mod 9)]"

definition evmSeed :: "nat \<Rightarrow> string" where
  "evmSeed i =
     ''0xa1b2c3d4e5f6a7b8c9d0e1f2a3b4c5d6e7f89''
       @ [seedDigit (i div 81), seedDigit (i div 9 mod 9), seedDigit (i mod 9)]"

text \<open>
  A transaction that carries two native transfers to the same wallet: a dust transfer
  from an exchange address first, then the transfer that funds the wallet.
\<close>

definition fundedWallet :: string where
  "fundedWallet = ''9xQeWvG816bUx9EPjHmaT23yvVM2ZWbrrpZb9PusVFin''"

definition dustSender :: string where
  "dustSender = ''5tzFkiKscXHK5ZXCGbXZxdw7gTjjD1mBwuoFbhUvuAi9''"

definition realFunder :: string where
  "realFunder = ''7cVfgArCheMR6Cs4t6vz5rfnqd56vZq4ndaBrY5xkxXy''"

definition dustFirstTx :: HeliusTransaction where
  "dustFirstTx =
     \<lparr>signature = ''sig'', type = ''TRANSFER'', source = ''SYSTEM_PROGRAM'', slot = Fin 1,
      timestamp = 1000, feePayer = realFunder, tokenTransfers = [],
      nativeTransfers =
        [\<lparr>HeliusNativeTransfer.fromUserAccount = dustSender, toUserAccount = fundedWallet,
          amount = Fin 5000\<rparr>,
         \<lparr>HeliusNativeTransfer.fromUserAccount = realFunder, toUserAccount = fundedWallet,
          amount = Fin 20000000\<rparr>]\<rparr>"

text \<open>
  Launch snapshots on a slot-model chain: three distinct launch-window buyers; one
  launch-window buyer and five early-window buyers; one buyer only. And one on an
  account-model chain, whose first transfer is a mint and whose last has no buyer.
\<close>

definition launchBundle :: ForensicData where
  "launchBundle =
     forensicsOf
       [transferOf ''buyerA'' [] (Fin 1000) (Fin 0), transferOf ''buyerB'' [] (Fin 1000) (Fin 0),
        transferOf ''buyerC'' [] (Fin 1000) (Fin 0)]
       []"

definition earlyBundle :: ForensicData where
  "earlyBundle =
     forensicsOf
       [transferOf ''buyerA'' [] (Fin 1000) (Fin 0)]
       [transferOf ''buyerA'' [] (Fin 1000) (Fin 2), transferOf ''buyerB'' [] (Fin 1000) (Fin 2),
        transferOf ''buyerC'' [] (Fin 1000) (Fin 2), transferOf ''buyerD'' [] (Fin 1000) (Fin 2),
        transferOf ''buyerE'' [] (Fin 1000) (Fin 2)]"

definition quietLaunch :: ForensicData where
  "quietLaunch =
     forensicsOf
       [transferOf ''buyerA'' [] (Fin 1000) (Fin 0)]
       [transferOf ''buyerA'' [] (Fin 1000) (Fin 0)]"

definition evmLaunch :: ForensicData where
  "evmLaunch =
     forensicsOf
       [transferOf ''0xbuyer1'' ''0x0000000000000000000000000000000000000000'' (Fin 5000) (Fin 0),
        transferOf ''0xbuyer2'' ''0xseller'' (Fin 1000) (Fin 0),
        transferOf [] ''0xseller'' (Fin 1000) (Fin 0)]
       [transferOf ''0xbuyer2'' ''0xseller'' (Fin 1000) (Fin 0)]"

definition evmLaunchResult :: AnalysisResult where
  "evmLaunchResult =
     \<lparr>sniperCount = 1, block0Volume = Fin 10, earlyVolume = Fin 10, bundleVolumeUSD = Fin 10,
      totalBundlePercentage = Fin 0, holdingConcentration = Fin 0, uniqueFundingSources = 1,
      hasBundleCluster = False, block0Buyers = [''0xbuyer2'']\<rparr>"

text \<open>
  A launch window on a slot-model chain with three distinct buyers in four transfers: the
  first buyer bought twice. And the result of the analyzer for it at the price 0.01.
\<close>

definition repeatBuyerLaunch :: ForensicData where
  "repeatBuyerLaunch =
     forensicsOf
       [transferOf ''buyerA'' [] (Fin 1000) (Fin 0), transferOf ''buyerB'' [] (Fin 1000) (Fin 0),
        transferOf ''buyerC'' [] (Fin 1000) (Fin 0), transferOf ''buyerA'' [] (Fin 1000) (Fin 0)]
       []"

definition repeatBuyerResult :: AnalysisResult where
  "repeatBuyerResult =
     \<lparr>sniperCount = 3, block0Volume = Fin 40, earlyVolume = Fin 0, bundleVolumeUSD = Fin 40,
      totalBundlePercentage = Fin 0, holdingConcentration = Fin 0, uniqueFundingSources = 0,
      hasBundleCluster = True, block0Buyers = [''buyerA'', ''buyerB'', ''buyerC'']\<rparr>"

text \<open>The labels of the three rules of the scoring that read the launch snapshot.\<close>

definition snapshotRuleLabels :: "string list" where
  "snapshotRuleLabels = [''Bundle Activity'', ''Launch Volume'', ''Holder Concentration'']"

section \<open>Properties of the arithmetic\<close>

text \<open>
  Rounding is the identity on the integers below \<open>2 ^ 53\<close>; the double nearest to 0.01
  is \<open>5764607523034235 / 2 ^ 59\<close>, and 1000 times that double rounds to 10.
\<close>

lemma roundHalfEven_int [simp]: "roundHalfEven (of_int n) = n"
  by (simp add: roundHalfEven_def)

lemma roundToDouble_at:
  assumes "2 powr (of_int e) \<le> \<bar>x\<bar>" "\<bar>x\<bar> < 2 powr (of_int e + 1)" "- 1022 \<le> e"
  shows "roundToDouble x
           = of_int (roundHalfEven (x / 2 powr (of_int e - 52))) * 2 powr (of_int e - 52)"
proof -
  have pos: "0 < \<bar>x\<bar>" using assms(1) powr_gt_zero[of 2 "of_int e"] by linarith
  then have "\<lfloor>log 2 \<bar>x\<bar>\<rfloor> = e"
    using assms(1,2) by (simp add: floor_log_eq_powr_iff)
  with pos assms(3) show ?thesis
    by (auto simp: roundToDouble_def Let_def max_def)
qed

lemma roundToDouble_int:
  assumes "\<bar>n\<bar> < 2 ^ 53"
  shows "roundToDouble (of_int n) = of_int n"
proof (cases "n = 0")
  case True
  then show ?thesis by (simp add: roundToDouble_def)
next
  case False
  define x :: real where "x = of_int n"
  define e where "e = \<lfloor>log 2 \<bar>x\<bar>\<rfloor>"
  have x1: "1 \<le> \<bar>x\<bar>" using False by (simp add: x_def)
  have xlt: "\<bar>x\<bar> < 2 ^ 53"
  proof -
    have "\<bar>x\<bar> = of_int \<bar>n\<bar>" by (simp add: x_def)
    also have "\<dots> < of_int (2 ^ 53)" using assms by (simp only: of_int_less_iff)
    finally show ?thesis by simp
  qed
  have e0: "0 \<le> e" using x1 by (simp add: e_def)
  have lb: "2 powr (of_int e) \<le> \<bar>x\<bar>" and ub: "\<bar>x\<bar> < 2 powr (of_int e + 1)"
    using x1 floor_log_eq_powr_iff[of "\<bar>x\<bar>" 2 e] by (simp_all add: e_def)
  have p53: "(2::real) powr 53 = 2 ^ 53" by simp
  have "(2::real) powr (of_int e) < 2 powr 53"
    unfolding p53 using lb xlt by linarith
  then have "real_of_int e < 53"
    by (subst (asm) powr_less_cancel_iff) simp_all
  then have e52: "e \<le> 52" by linarith
  define k where "k = nat (52 - e)"
  have ulp: "(2::real) powr (of_int e - 52) = 1 / 2 ^ k"
  proof -
    have "of_int e - 52 = - real k" using e52 by (simp add: k_def)
    then show ?thesis by (simp add: powr_minus powr_realpow inverse_eq_divide)
  qed
  have q: "x / (1 / 2 ^ k) = of_int (n * 2 ^ k)"
    by (simp add: x_def)
  have "roundToDouble x
          = of_int (roundHalfEven (x / 2 powr (of_int e - 52))) * 2 powr (of_int e - 52)"
    using lb ub e0 by (intro roundToDouble_at) auto
  also have "\<dots> = of_int (n * 2 ^ k) * (1 / 2 ^ k)"
    by (simp only: ulp q roundHalfEven_int)
  also have "\<dots> = x"
    by (simp add: x_def)
  finally show ?thesis by (simp add: x_def)
qed

lemma roundToDouble_Ints: "x \<in> \<int> \<Longrightarrow> \<bar>x\<bar> < 2 ^ 53 \<Longrightarrow> roundToDouble x = x"
  by (auto elim!: Ints_cases intro!: roundToDouble_int)

lemma one_hundredth: "roundToDouble (1 / 100) = 5764607523034235 / 2 ^ 59"
proof -
  have u: "2 powr (of_int (- 7) - 52) = (1 / 2 ^ 59 :: real)"
    by (simp add: powr_minus inverse_eq_divide)
  have "\<lfloor>(1 / 100) / (1 / 2 ^ 59 :: real)\<rfloor> = 5764607523034234"
    by (simp add: floor_eq_iff)
  then have r: "roundHalfEven ((1 / 100) / (1 / 2 ^ 59)) = 5764607523034235"
    by (simp add: roundHalfEven_def Let_def)
  have "roundToDouble (1 / 100)
      = of_int (roundHalfEven ((1 / 100) / 2 powr (of_int (- 7) - 52))) * 2 powr (of_int (- 7) - 52)"
    by (rule roundToDouble_at) (simp_all add: powr_minus)
  also have "\<dots> = of_int 5764607523034235 * (1 / 2 ^ 59)"
    by (simp only: u r)
  finally show ?thesis by simp
qed

lemma thousand_hundredths: "roundToDouble (1000 * (5764607523034235 / 2 ^ 59)) = 10"
proof -
  have u: "2 powr (of_int 3 - 52) = (1 / 2 ^ 49 :: real)"
    by (simp add: powr_minus inverse_eq_divide)
  have "\<lfloor>(1000 * (5764607523034235 / 2 ^ 59)) / (1 / 2 ^ 49 :: real)\<rfloor> = 5629499534213120"
    by (simp add: floor_eq_iff)
  then have r: "roundHalfEven ((1000 * (5764607523034235 / 2 ^ 59)) / (1 / 2 ^ 49)) = 5629499534213120"
    by (simp add: roundHalfEven_def Let_def)
  have "roundToDouble (1000 * (5764607523034235 / 2 ^ 59))
      = of_int (roundHalfEven ((1000 * (5764607523034235 / 2 ^ 59)) / 2 powr (of_int 3 - 52)))
          * 2 powr (of_int 3 - 52)"
    by (rule roundToDouble_at) (simp_all add: powr_minus)
  also have "\<dots> = of_int 5629499534213120 * (1 / 2 ^ 49)"
    by (simp only: u r)
  finally show ?thesis by simp
qed

lemma toDouble_Ints:
  assumes "x \<in> \<int>" "\<bar>x\<bar> < 2 ^ 53"
  shows "toDouble negativeZero x = (if x = 0 then signedZero negativeZero else Fin x)"
proof -
  have r: "roundToDouble x = x" using assms by (rule roundToDouble_Ints)
  have "(2::real) ^ 53 < 2 ^ 1024" by simp
  with assms(2) have "\<not> (2 ^ 1024 \<le> \<bar>x\<bar>)" by linarith
  then show ?thesis by (simp add: toDouble_def r Let_def)
qed

lemma js_add_Ints:
  assumes "x \<in> \<int>" "y \<in> \<int>" "\<bar>x + y\<bar> < 2 ^ 53"
  shows "js_add (Fin x) (Fin y) = Fin (x + y)"
proof -
  have "x + y \<in> \<int>" using assms(1,2) by simp
  from toDouble_Ints[OF this assms(3)] show ?thesis
    by (auto simp: js_add_def Let_def signedZero_def)
qed

lemma nearestDouble_hundredth: "nearestDouble (1 / 100) = Fin (5764607523034235 / 2 ^ 59)"
  by (simp add: nearestDouble_def toDouble_def one_hundredth Let_def)

lemma js_mul_1000_hundredth: "js_mul (Fin 1000) (nearestDouble (1 / 100)) = Fin 10"
  using thousand_hundredths
  by (simp add: nearestDouble_hundredth js_mul_def toDouble_def Let_def)

lemma js_sum_10:
  "js_add (Fin 0) (Fin 10) = Fin 10" "js_add (Fin 10) (Fin 10) = Fin 20"
  "js_add (Fin 20) (Fin 10) = Fin 30" "js_add (Fin 30) (Fin 10) = Fin 40"
  by (simp_all add: js_add_Ints)

lemma js_sum_2:
  "js_add (Fin 0) (Fin 2) = Fin 2" "js_add (Fin 2) (Fin 2) = Fin 4"
  "js_add (Fin 4) (Fin 2) = Fin 6" "js_add (Fin 6) (Fin 2) = Fin 8"
  "js_add (Fin 8) (Fin 2) = Fin 10"
  by (simp_all add: js_add_Ints)

section \<open>Properties of the scoring\<close>

text \<open>Each rule keeps the running score an integer.\<close>

lemma mintableRule_int: "fst st \<in> \<int> \<Longrightarrow> fst (mintableRule security st) \<in> \<int>"
  by (simp add: mintableRule_def)

lemma buyTaxRule_int: "fst st \<in> \<int> \<Longrightarrow> fst (buyTaxRule js security st) \<in> \<int>"
  by (simp add: buyTaxRule_def Let_def)

lemma sellTaxRule_int: "fst st \<in> \<int> \<Longrightarrow> fst (sellTaxRule js security st) \<in> \<int>"
  by (simp add: sellTaxRule_def Let_def)

lemma sellRestrictionRule_int: "fst st \<in> \<int> \<Longrightarrow> fst (sellRestrictionRule security st) \<in> \<int>"
  by (simp add: sellRestrictionRule_def)

lemma liquidityRule_int: "fst st \<in> \<int> \<Longrightarrow> fst (liquidityRule js liq st) \<in> \<int>"
  by (simp add: liquidityRule_def)

lemma bundleActivityRule_int: "fst st \<in> \<int> \<Longrightarrow> fst (bundleActivityRule js an st) \<in> \<int>"
  by (simp add: bundleActivityRule_def Let_def)

lemma launchVolumeRule_int: "fst st \<in> \<int> \<Longrightarrow> fst (launchVolumeRule js an st) \<in> \<int>"
  by (simp add: launchVolumeRule_def Let_def)

lemma holderConcentrationRule_int:
  "fst st \<in> \<int> \<Longrightarrow> fst (holderConcentrationRule js an st) \<in> \<int>"
  by (simp add: holderConcentrationRule_def Let_def)

lemma lpImpactRule_int: "fst st \<in> \<int> \<Longrightarrow> fst (lpImpactRule js bc st) \<in> \<int>"
  by (simp add: lpImpactRule_def Let_def)

lemma bundledSupplyRule_int: "fst st \<in> \<int> \<Longrightarrow> fst (bundledSupplyRule js bc st) \<in> \<int>"
  by (simp add: bundledSupplyRule_def Let_def)

lemma deepBundleRules_int: "fst st \<in> \<int> \<Longrightarrow> fst (deepBundleRules js bc st) \<in> \<int>"
  by (simp add: deepBundleRules_def lpImpactRule_int bundledSupplyRule_int split: option.splits)

text \<open>Each rule leaves the difference between the score and the sum of the impacts unchanged.\<close>

lemma mintableRule_sum:
  "fst (mintableRule security st) - sum_list (map impact (snd (mintableRule security st)))
     = fst st - sum_list (map impact (snd st))"
  by (simp add: mintableRule_def)

lemma buyTaxRule_sum:
  "fst (buyTaxRule js security st) - sum_list (map impact (snd (buyTaxRule js security st)))
     = fst st - sum_list (map impact (snd st))"
  by (simp add: buyTaxRule_def Let_def)

lemma sellTaxRule_sum:
  "fst (sellTaxRule js security st) - sum_list (map impact (snd (sellTaxRule js security st)))
     = fst st - sum_list (map impact (snd st))"
  by (simp add: sellTaxRule_def Let_def)

lemma sellRestrictionRule_sum:
  "fst (sellRestrictionRule security st)
     - sum_list (map impact (snd (sellRestrictionRule security st)))
     = fst st - sum_list (map impact (snd st))"
  by (simp add: sellRestrictionRule_def)

lemma liquidityRule_sum:
  "fst (liquidityRule js liq st) - sum_list (map impact (snd (liquidityRule js liq st)))
     = fst st - sum_list (map impact (snd st))"
  by (simp add: liquidityRule_def)

lemma bundleActivityRule_sum:
  "fst (bundleActivityRule js an st) - sum_list (map impact (snd (bundleActivityRule js an st)))
     = fst st - sum_list (map impact (snd st))"
  by (simp add: bundleActivityRule_def Let_def)

lemma launchVolumeRule_sum:
  "fst (launchVolumeRule js an st) - sum_list (map impact (snd (launchVolumeRule js an st)))
     = fst st - sum_list (map impact (snd st))"
  by (simp add: launchVolumeRule_def Let_def)

lemma holderConcentrationRule_sum:
  "fst (holderConcentrationRule js an st)
     - sum_list (map impact (snd (holderConcentrationRule js an st)))
     = fst st - sum_list (map impact (snd st))"
  by (simp add: holderConcentrationRule_def Let_def)

lemma lpImpactRule_sum:
  "fst (lpImpactRule js bc st) - sum_list (map impact (snd (lpImpactRule js bc st)))
     = fst st - sum_list (map impact (snd st))"
  by (simp add: lpImpactRule_def Let_def)

lemma bundledSupplyRule_sum:
  "fst (bundledSupplyRule js bc st) - sum_list (map impact (snd (bundledSupplyRule js bc st)))
     = fst st - sum_list (map impact (snd st))"
  by (simp add: bundledSupplyRule_def Let_def)

lemma deepBundleRules_sum:
  "fst (deepBundleRules js bc st) - sum_list (map impact (snd (deepBundleRules js bc st)))
     = fst st - sum_list (map impact (snd st))"
  by (simp add: deepBundleRules_def lpImpactRule_sum bundledSupplyRule_sum split: option.splits)

lemma calculateScore_unfold:
  "calculateScore js liq sec an bc =
     (if (case sec of None \<Rightarrow> False | Some s \<Rightarrow> is_honeypot s)
      then \<lparr>ScoreResult.score = 0, breakdown = [honeypotFactor]\<rparr>
      else
        (let st = deepBundleRules js bc (holderConcentrationRule js an (launchVolumeRule js an
                    (bundleActivityRule js an (liquidityRule js liq (sellRestrictionRule sec
                      (sellTaxRule js sec (buyTaxRule js sec (mintableRule sec (100, [])))))))))
         in \<lparr>ScoreResult.score = max 0 (min 100 (fst st)), breakdown = snd st\<rparr>))"
  by (simp add: calculateScore_def Let_def)

lemma rules_int:
  "fst (deepBundleRules js bc (holderConcentrationRule js an (launchVolumeRule js an
          (bundleActivityRule js an (liquidityRule js liq (sellRestrictionRule sec
            (sellTaxRule js sec (buyTaxRule js sec (mintableRule sec (100, [])))))))))) \<in> \<int>"
  by (intro deepBundleRules_int holderConcentrationRule_int launchVolumeRule_int
      bundleActivityRule_int liquidityRule_int sellRestrictionRule_int sellTaxRule_int
      buyTaxRule_int mintableRule_int) simp

lemma rules_sum:
  assumes "st = deepBundleRules js bc (holderConcentrationRule js an (launchVolumeRule js an
          (bundleActivityRule js an (liquidityRule js liq (sellRestrictionRule sec
            (sellTaxRule js sec (buyTaxRule js sec (mintableRule sec (100, [])))))))))"
  shows "fst st = 100 + sum_list (map impact (snd st))"
proof -
  have "fst st - sum_list (map impact (snd st)) = 100"
    unfolding assms
    by (simp only: deepBundleRules_sum holderConcentrationRule_sum launchVolumeRule_sum
        bundleActivityRule_sum liquidityRule_sum sellRestrictionRule_sum sellTaxRule_sum
        buyTaxRule_sum mintableRule_sum) simp
  then show ?thesis by simp
qed

lemma clamp_int:
  assumes "(x::real) \<in> \<int>"
  shows "\<exists>k::int. max 0 (min 100 x) = of_int k \<and> 0 \<le> k \<and> k \<le> 100"
proof -
  from assms obtain j :: int where j: "x = of_int j" by (auto elim: Ints_cases)
  have "max 0 (min 100 x) = of_int (max 0 (min 100 j))"
    unfolding j by (simp add: max_def min_def)
  then show ?thesis by (intro exI[of _ "max 0 (min 100 j)"]) simp
qed

text \<open>
  C1. For every liquidity value, security audit, analysis snapshot and optional
  cluster-control result, the score that \<open>calculateScore\<close> returns is an integer
  between 0 and 100.
\<close>

theorem calculateScore_range:
  "\<exists>k::int. ScoreResult.score (calculateScore js liq sec an bc) = of_int k
     \<and> 0 \<le> k \<and> k \<le> 100"
proof (cases "case sec of None \<Rightarrow> False | Some s \<Rightarrow> is_honeypot s")
  case True
  then have "ScoreResult.score (calculateScore js liq sec an bc) = of_int 0"
    by (simp add: calculateScore_unfold)
  then show ?thesis by (intro exI[of _ 0]) simp
next
  case False
  from clamp_int[OF rules_int[of js bc an liq sec]] False show ?thesis
    by (simp add: calculateScore_unfold Let_def)
qed

theorem calculateScore_range_witness:
  "\<exists>k::int. ScoreResult.score
       (calculateScore sampleBuiltins (Fin 500) (Some (sampleSecurity False True)) scenarioC
          (Some sampleBundleControl)) = of_int k
     \<and> 0 \<le> k \<and> k \<le> 100"
  by (rule calculateScore_range)

text \<open>
  C2. When the security audit reports a honeypot, \<open>calculateScore\<close> returns the score
  0 and a breakdown of exactly one entry, the honeypot entry, whose impact is -100; no
  other rule adds an entry.
\<close>

theorem honeypot_short_circuit:
  assumes "is_honeypot s"
  shows "calculateScore js liq (Some s) an bc
           = \<lparr>ScoreResult.score = 0, breakdown = [honeypotFactor]\<rparr>
         \<and> impact honeypotFactor = - 100"
  using assms by (simp add: calculateScore_unfold honeypotFactor_def)

theorem honeypot_short_circuit_witness:
  "is_honeypot (sampleSecurity True True)
   \<and> calculateScore sampleBuiltins (Fin 500) (Some (sampleSecurity True True)) scenarioC
         (Some sampleBundleControl)
       = \<lparr>ScoreResult.score = 0, breakdown = [honeypotFactor]\<rparr>
   \<and> impact honeypotFactor = - 100"
proof -
  have h: "is_honeypot (sampleSecurity True True)"
    by (simp add: sampleSecurity_def)
  from honeypot_short_circuit[OF h, of sampleBuiltins "Fin 500" scenarioC
      "Some sampleBundleControl"] h
  show ?thesis by simp
qed

text \<open>
  C10. The score that \<open>calculateScore\<close> returns is 100 plus the sum of the impacts of
  the entries of the returned breakdown, clamped to the interval from 0 to 100: every
  deduction from the score is mirrored by an entry with the same impact.
\<close>

theorem score_mirrors_breakdown:
  "ScoreResult.score (calculateScore js liq sec an bc)
     = max 0 (min 100 (100 + sum_list (map impact
         (breakdown (calculateScore js liq sec an bc)))))"
proof (cases "case sec of None \<Rightarrow> False | Some s \<Rightarrow> is_honeypot s")
  case True
  then show ?thesis by (simp add: calculateScore_unfold honeypotFactor_def)
next
  case False
  with rules_sum[OF refl, of js bc an liq sec] show ?thesis
    by (simp add: calculateScore_unfold Let_def)
qed

theorem score_mirrors_breakdown_witness:
  "ScoreResult.score
     (calculateScore sampleBuiltins (Fin 2500) (Some (sampleSecurity False True)) scenarioC
        (Some sampleBundleControl)) = 0
   \<and> map impact (breakdown
         (calculateScore sampleBuiltins (Fin 2500) (Some (sampleSecurity False True)) scenarioC
            (Some sampleBundleControl)))
       = [- 25, - 15, - 25, - 30, - 25, - 20, - 15, - 8]"
proof -
  have b: "map impact (breakdown
         (calculateScore sampleBuiltins (Fin 2500) (Some (sampleSecurity False True)) scenarioC
            (Some sampleBundleControl)))
       = [- 25, - 15, - 25, - 30, - 25, - 20, - 15, - 8]"
    by (simp add: calculateScore_def Let_def sampleBuiltins_def sampleSecurity_def
        scenarioC_def sampleBundleControl_def mintableRule_def buyTaxRule_def sellTaxRule_def
        sellRestrictionRule_def liquidityRule_def bundleActivityRule_def launchVolumeRule_def
        holderConcentrationRule_def deepBundleRules_def lpImpactRule_def
        bundledSupplyRule_def taxString_def)
  from score_mirrors_breakdown[of sampleBuiltins "Fin 2500" "Some (sampleSecurity False True)"
      scenarioC "Some sampleBundleControl"] b
  show ?thesis by simp
qed

section \<open>Properties of the forensic analysis\<close>

lemma set_set_add: "set (set_add x xs) = insert x (set xs)"
  by (auto simp: set_add_def)

lemma distinct_set_add: "distinct xs \<Longrightarrow> distinct (set_add x xs)"
  by (simp add: set_add_def)

lemma block0Step_noise:
  "mintLikeNoise (\<not> sol) tx \<Longrightarrow> block0Step sol p st tx = st"
  by (auto simp: block0Step_def mintLikeNoise_def Let_def)

lemma block0Step_kept:
  "\<not> mintLikeNoise (\<not> sol) tx \<Longrightarrow>
   block0Step sol p st tx = (set_add (buyerAddress tx) (fst st), js_add (snd st) (transferVolume p tx))"
  by (auto simp: block0Step_def mintLikeNoise_def transferVolume_def Let_def)

lemma block0_fold:
  "foldl (block0Step sol p) st txs =
     (foldl (\<lambda>acc b. set_add b acc) (fst st)
        (map buyerAddress (filter (\<lambda>tx. \<not> mintLikeNoise (\<not> sol) tx) txs)),
      foldl js_add (snd st)
        (map (transferVolume p) (filter (\<lambda>tx. \<not> mintLikeNoise (\<not> sol) tx) txs)))"
proof (induction txs arbitrary: st)
  case Nil
  show ?case by simp
next
  case (Cons tx txs)
  show ?case
  proof (cases "mintLikeNoise (\<not> sol) tx")
    case True
    then show ?thesis using Cons.IH[of st] by (simp add: block0Step_noise)
  next
    case False
    then show ?thesis
      using Cons.IH[of "(set_add (buyerAddress tx) (fst st), js_add (snd st) (transferVolume p tx))"]
      by (simp add: block0Step_kept)
  qed
qed

lemma fold_set_add_set: "set (foldl (\<lambda>acc b. set_add b acc) xs bs) = set xs \<union> set bs"
  by (induction bs arbitrary: xs) (auto simp: set_set_add)

lemma fold_set_add_distinct: "distinct xs \<Longrightarrow> distinct (foldl (\<lambda>acc b. set_add b acc) xs bs)"
  by (induction bs arbitrary: xs) (auto simp: distinct_set_add)

lemma fold_set_add_length:
  "length (foldl (\<lambda>acc b. set_add b acc) [] bs) = card (set bs)"
proof -
  have "distinct (foldl (\<lambda>acc b. set_add b acc) [] bs)"
    by (rule fold_set_add_distinct) simp
  then have "length (foldl (\<lambda>acc b. set_add b acc) [] bs)
             = card (set (foldl (\<lambda>acc b. set_add b acc) [] bs))"
    by (simp add: distinct_card)
  then show ?thesis by (simp add: fold_set_add_set)
qed

lemma earlyStep_noise:
  "mintLikeNoise (\<not> sol) tx \<Longrightarrow> earlyStep sol p st tx = st"
  by (auto simp: earlyStep_def mintLikeNoise_def Let_def)

lemma earlyStep_kept:
  "\<not> mintLikeNoise (\<not> sol) tx \<Longrightarrow>
   fst (earlyStep sol p st tx) = set_add (buyerAddress tx) (fst st)
   \<and> snd (snd (earlyStep sol p st tx)) = js_add (snd (snd st)) (transferVolume p tx)"
  by (auto simp: earlyStep_def mintLikeNoise_def transferVolume_def Let_def)

lemma early_fold:
  "fst (foldl (earlyStep sol p) st txs) =
     foldl (\<lambda>acc b. set_add b acc) (fst st)
        (map buyerAddress (filter (\<lambda>tx. \<not> mintLikeNoise (\<not> sol) tx) txs))
   \<and> snd (snd (foldl (earlyStep sol p) st txs)) =
     foldl js_add (snd (snd st))
        (map (transferVolume p) (filter (\<lambda>tx. \<not> mintLikeNoise (\<not> sol) tx) txs))"
proof (induction txs arbitrary: st)
  case Nil
  show ?case by simp
next
  case (Cons tx txs)
  show ?case
  proof (cases "mintLikeNoise (\<not> sol) tx")
    case True
    then show ?thesis using Cons.IH[of st] by (simp add: earlyStep_noise)
  next
    case False
    then show ?thesis
      using Cons.IH[of "earlyStep sol p st tx"] earlyStep_kept[OF False, of p st]
      by simp
  qed
qed

lemma analyze_fields:
  assumes "analyzeForensics (Some f) p fd c = Inr r"
  shows "block0Buyers r = foldl (\<lambda>acc b. set_add b acc) []
           (map buyerAddress (filter (\<lambda>tx. \<not> mintLikeNoise (c \<noteq> ''solana'') tx) (block0Transfers f)))"
    and "AnalysisResult.block0Volume r = windowVolume (c \<noteq> ''solana'') p (block0Transfers f)"
    and "earlyVolume r = windowVolume (c \<noteq> ''solana'') p (earlyTransfers f)"
    and "sniperCount r = length (block0Buyers r)"
  using assms early_fold[of "c = ''solana''" p "([], [], Fin 0)" "earlyTransfers f"]
  by (auto simp: analyzeForensics_def Let_def block0_fold windowVolume_def
      split: if_splits sum.splits)


lemma distinctBuyers_list:
  "distinctBuyers a txs = set (map buyerAddress (filter (\<lambda>tx. \<not> mintLikeNoise a tx) txs))"
  by (auto simp: distinctBuyers_def)

lemma length_fold_buyers:
  "length (foldl (\<lambda>acc b. set_add b acc) []
     (map buyerAddress (filter (\<lambda>tx. \<not> mintLikeNoise a tx) txs))) = card (distinctBuyers a txs)"
  by (simp add: fold_set_add_length distinctBuyers_list)

lemma analyze_solana:
  "analyzeForensics (Some f) p fd ''solana'' =
     (let b = foldl (\<lambda>acc b. set_add b acc) []
                (map buyerAddress (filter (\<lambda>tx. \<not> mintLikeNoise False tx) (block0Transfers f)));
          e = foldl (earlyStep True p) ([], [], Fin 0) (earlyTransfers f);
          bv = windowVolume False p (block0Transfers f);
          ev = windowVolume False p (earlyTransfers f);
          has = (3 \<le> card (distinctBuyers False (block0Transfers f))
                 \<or> 5 \<le> card (distinctBuyers False (earlyTransfers f)))
      in Inr \<lparr>sniperCount = length b, block0Volume = bv, earlyVolume = ev,
              bundleVolumeUSD =
                (if 3 \<le> card (distinctBuyers False (block0Transfers f)) then bv
                 else if 5 \<le> card (distinctBuyers False (earlyTransfers f)) then ev else bv),
              totalBundlePercentage =
                (if js_gt fd 0 then js_mul (js_div bv fd) (Fin 100) else Fin 0),
              holdingConcentration =
                foldl (\<lambda>acc h. js_add acc (NormalizedHolder.percentage h)) (Fin 0) (holders f),
              uniqueFundingSources = length (fst e),
              hasBundleCluster = has,
              block0Buyers = b\<rparr>)"
  using early_fold[of True p "([], [], Fin 0)" "earlyTransfers f"]
        length_fold_buyers[of False "block0Transfers f"]
        length_fold_buyers[of False "earlyTransfers f"]
  by (simp add: analyzeForensics_def Let_def block0_fold windowVolume_def)

text \<open>
  The analyzer returns on every slot-model input, and on an account-model input
  whenever no early-window seller is the name of a property of \<open>Object.prototype\<close>.
\<close>

lemma fanOutStep_returns:
  "sellerAddress tx \<notin> set objectPrototypeKeys \<Longrightarrow> \<exists>m'. fanOutStep m tx = Inr m'"
  by (simp add: fanOutStep_def Let_def split: option.splits)

lemma fanOut_returns:
  "list_all (\<lambda>tx. sellerAddress tx \<notin> set objectPrototypeKeys) txs \<Longrightarrow>
   \<exists>m'. fanOut m txs = Inr m'"
proof (induction txs arbitrary: m)
  case Nil
  show ?case by simp
next
  case (Cons tx txs)
  then obtain m1 where "fanOutStep m tx = Inr m1"
    using fanOutStep_returns[of tx m] by auto
  with Cons show ?case by simp
qed

lemma analyzeForensics_returns:
  assumes "c = ''solana''
           \<or> list_all (\<lambda>tx. sellerAddress tx \<notin> set objectPrototypeKeys) (earlyTransfers f)"
  shows "\<exists>r. analyzeForensics (Some f) p fd c = Inr r"
proof (cases "c = ''solana''")
  case True
  then show ?thesis by (simp add: analyzeForensics_def Let_def)
next
  case False
  with assms obtain m where "fanOut [] (earlyTransfers f) = Inr m"
    using fanOut_returns[of "earlyTransfers f" "[]"] by auto
  with False show ?thesis by (simp add: analyzeForensics_def Let_def)
qed

text \<open>
  C4. On a slot-model chain the analyzer reports a bundle cluster exactly when at least 3
  distinct non-excluded addresses bought in the launch window or at least 5 bought in
  the early window. The bundle volume is the launch-window volume when the launch
  window has 3 such buyers, otherwise the early-window volume when the early window has
  5, and otherwise (no cluster) the launch-window volume.
\<close>

theorem solana_bundle_cluster:
  "\<exists>r. analyzeForensics (Some f) p fd ''solana'' = Inr r
     \<and> hasBundleCluster r =
         (3 \<le> card (distinctBuyers False (block0Transfers f))
          \<or> 5 \<le> card (distinctBuyers False (earlyTransfers f)))
     \<and> bundleVolumeUSD r =
         (if 3 \<le> card (distinctBuyers False (block0Transfers f))
          then windowVolume False p (block0Transfers f)
          else if 5 \<le> card (distinctBuyers False (earlyTransfers f))
          then windowVolume False p (earlyTransfers f)
          else windowVolume False p (block0Transfers f))"
  by (simp add: analyze_solana Let_def)

theorem solana_bundle_cluster_witness:
  "(\<exists>r. analyzeForensics (Some launchBundle) (nearestDouble (1 / 100)) (Fin 0) ''solana'' = Inr r
        \<and> hasBundleCluster r = True \<and> bundleVolumeUSD r = Fin 30)
   \<and> (\<exists>r. analyzeForensics (Some earlyBundle) (nearestDouble (1 / 100)) (Fin 0) ''solana'' = Inr r
        \<and> hasBundleCluster r = True \<and> bundleVolumeUSD r = Fin 10)
   \<and> (\<exists>r. analyzeForensics (Some quietLaunch) (nearestDouble (1 / 100)) (Fin 0) ''solana'' = Inr r
        \<and> hasBundleCluster r = False \<and> bundleVolumeUSD r = Fin 10)"
proof -
  have a: "card (distinctBuyers False (block0Transfers launchBundle)) = 3"
    by (simp add: distinctBuyers_list launchBundle_def forensicsOf_def transferOf_def
        mintLikeNoise_def isZeroAddress_def ZERO_ADDRESSES_def)
  have av: "windowVolume False (nearestDouble (1 / 100)) (block0Transfers launchBundle) = Fin 30"
    by (simp add: windowVolume_def transferVolume_def launchBundle_def forensicsOf_def
        transferOf_def mintLikeNoise_def isZeroAddress_def ZERO_ADDRESSES_def
        js_mul_1000_hundredth js_sum_10 js_sum_2)
  have b: "card (distinctBuyers False (block0Transfers earlyBundle)) = 1"
    "card (distinctBuyers False (earlyTransfers earlyBundle)) = 5"
    by (simp_all add: distinctBuyers_list earlyBundle_def forensicsOf_def transferOf_def
        mintLikeNoise_def isZeroAddress_def ZERO_ADDRESSES_def)
  have bv: "windowVolume False (nearestDouble (1 / 100)) (earlyTransfers earlyBundle) = Fin 10"
    by (simp add: windowVolume_def transferVolume_def earlyBundle_def forensicsOf_def
        transferOf_def mintLikeNoise_def isZeroAddress_def ZERO_ADDRESSES_def
        js_mul_1000_hundredth js_sum_10 js_sum_2)
  have c: "card (distinctBuyers False (block0Transfers quietLaunch)) = 1"
    "card (distinctBuyers False (earlyTransfers quietLaunch)) = 1"
    by (simp_all add: distinctBuyers_list quietLaunch_def forensicsOf_def transferOf_def
        mintLikeNoise_def isZeroAddress_def ZERO_ADDRESSES_def)
  have cv: "windowVolume False (nearestDouble (1 / 100)) (block0Transfers quietLaunch) = Fin 10"
    by (simp add: windowVolume_def transferVolume_def quietLaunch_def forensicsOf_def
        transferOf_def mintLikeNoise_def isZeroAddress_def ZERO_ADDRESSES_def
        js_mul_1000_hundredth js_sum_10 js_sum_2)
  from solana_bundle_cluster[of launchBundle "nearestDouble (1 / 100)" "Fin 0"] a av
  have 1: "\<exists>r. analyzeForensics (Some launchBundle) (nearestDouble (1 / 100)) (Fin 0) ''solana'' = Inr r
        \<and> hasBundleCluster r = True \<and> bundleVolumeUSD r = Fin 30"
    by simp
  from solana_bundle_cluster[of earlyBundle "nearestDouble (1 / 100)" "Fin 0"] b bv
  have 2: "\<exists>r. analyzeForensics (Some earlyBundle) (nearestDouble (1 / 100)) (Fin 0) ''solana'' = Inr r
        \<and> hasBundleCluster r = True \<and> bundleVolumeUSD r = Fin 10"
    by simp
  from solana_bundle_cluster[of quietLaunch "nearestDouble (1 / 100)" "Fin 0"] c cv
  have 3: "\<exists>r. analyzeForensics (Some quietLaunch) (nearestDouble (1 / 100)) (Fin 0) ''solana'' = Inr r
        \<and> hasBundleCluster r = False \<and> bundleVolumeUSD r = Fin 10"
    by simp
  from 1 2 3 show ?thesis by blast
qed

text \<open>
  C5. Whenever the analyzer returns, its seed-buyer set and its launch-window and
  early-window volumes are those of the transfers that are not mint-like noise: on an
  account-model chain a transfer whose seller is a recognized zero/burn address counts
  for neither, on every chain a transfer with an empty or zero-address buyer counts for
  neither, and on a slot-model chain the seller is not looked at.
\<close>

theorem analyzer_excludes_mint_like_noise:
  assumes "analyzeForensics (Some f) p fd c = Inr r"
  shows "set (block0Buyers r) = distinctBuyers (c \<noteq> ''solana'') (block0Transfers f)
       \<and> sniperCount r = card (distinctBuyers (c \<noteq> ''solana'') (block0Transfers f))
       \<and> AnalysisResult.block0Volume r = windowVolume (c \<noteq> ''solana'') p (block0Transfers f)
       \<and> earlyVolume r = windowVolume (c \<noteq> ''solana'') p (earlyTransfers f)"
  using analyze_fields[OF assms]
  by (simp add: fold_set_add_set distinctBuyers_list length_fold_buyers)

theorem analyzer_excludes_mint_like_noise_witness:
  "analyzeForensics (Some evmLaunch) (nearestDouble (1 / 100)) (Fin 0) ''ethereum'' = Inr evmLaunchResult
   \<and> block0Buyers evmLaunchResult = [''0xbuyer2'']
   \<and> set (block0Buyers evmLaunchResult) = distinctBuyers True (block0Transfers evmLaunch)
   \<and> sniperCount evmLaunchResult = card (distinctBuyers True (block0Transfers evmLaunch))
   \<and> AnalysisResult.block0Volume evmLaunchResult
       = windowVolume True (nearestDouble (1 / 100)) (block0Transfers evmLaunch)
   \<and> earlyVolume evmLaunchResult = windowVolume True (nearestDouble (1 / 100)) (earlyTransfers evmLaunch)"
proof -
  have h: "analyzeForensics (Some evmLaunch) (nearestDouble (1 / 100)) (Fin 0) ''ethereum''
             = Inr evmLaunchResult"
    by (simp add: analyzeForensics_def evmLaunch_def evmLaunchResult_def forensicsOf_def
        transferOf_def Let_def block0Step_def earlyStep_def fanOutStep_def set_add_def
        isZeroAddress_def ZERO_ADDRESSES_def objectPrototypeKeys_def
        js_mul_1000_hundredth js_sum_10)
  have b: "block0Buyers evmLaunchResult = [''0xbuyer2'']"
    by (simp add: evmLaunchResult_def)
  have "''ethereum'' \<noteq> ''solana''" by simp
  with analyzer_excludes_mint_like_noise[OF h] h b show ?thesis
    by (simp only: simp_thms)
qed

text \<open>
  C6 as stated fails: a launch window on a slot-model chain with exactly 3 distinct
  non-zero buyers, every transfer with \<open>tokenAmount = 1000\<close> and \<open>usdValue = 0\<close>, at
  the price 0.01, in which one of the buyers bought twice, has a launch volume and a
  bundle volume of 40, not 30: the volume accrues per transfer, not per buyer.
\<close>

theorem scenario_A_repeat_buyer_counterexample:
  "map buyerAddress (block0Transfers repeatBuyerLaunch)
       = [''buyerA'', ''buyerB'', ''buyerC'', ''buyerA'']
   \<and> card (distinctBuyers False (block0Transfers repeatBuyerLaunch)) = 3
   \<and> map NormalizedTransfer.tokenAmount (block0Transfers repeatBuyerLaunch)
       = [Fin 1000, Fin 1000, Fin 1000, Fin 1000]
   \<and> map NormalizedTransfer.usdValue (block0Transfers repeatBuyerLaunch)
       = [Fin 0, Fin 0, Fin 0, Fin 0]
   \<and> analyzeForensics (Some repeatBuyerLaunch) (nearestDouble (1 / 100)) (Fin 0) ''solana''
       = Inr repeatBuyerResult
   \<and> AnalysisResult.block0Volume repeatBuyerResult = Fin 40
   \<and> AnalysisResult.block0Volume repeatBuyerResult \<noteq> Fin 30
   \<and> bundleVolumeUSD repeatBuyerResult = Fin 40
   \<and> bundleVolumeUSD repeatBuyerResult \<noteq> Fin 30"
proof -
  have "distinctBuyers False (block0Transfers repeatBuyerLaunch)
          = {''buyerA'', ''buyerB'', ''buyerC''}"
    by (auto simp: distinctBuyers_list repeatBuyerLaunch_def forensicsOf_def transferOf_def
        mintLikeNoise_def isZeroAddress_def ZERO_ADDRESSES_def)
  then have c: "card (distinctBuyers False (block0Transfers repeatBuyerLaunch)) = 3"
    by simp
  have v: "windowVolume False (nearestDouble (1 / 100)) (block0Transfers repeatBuyerLaunch)
             = Fin 40"
    by (simp add: windowVolume_def transferVolume_def repeatBuyerLaunch_def forensicsOf_def
        transferOf_def mintLikeNoise_def isZeroAddress_def ZERO_ADDRESSES_def
        js_mul_1000_hundredth js_sum_10)
  have e: "windowVolume False (nearestDouble (1 / 100)) (earlyTransfers repeatBuyerLaunch)
             = Fin 0"
    by (simp add: windowVolume_def repeatBuyerLaunch_def forensicsOf_def)
  have b: "foldl (\<lambda>acc b. set_add b acc) []
             (map buyerAddress (filter (\<lambda>tx. \<not> mintLikeNoise False tx)
                (block0Transfers repeatBuyerLaunch)))
           = [''buyerA'', ''buyerB'', ''buyerC'']"
    by (simp add: repeatBuyerLaunch_def forensicsOf_def transferOf_def set_add_def
        mintLikeNoise_def isZeroAddress_def ZERO_ADDRESSES_def)
  have o: "foldl (earlyStep True (nearestDouble (1 / 100))) ([], [], Fin 0)
             (earlyTransfers repeatBuyerLaunch) = ([], [], Fin 0)"
    "holders repeatBuyerLaunch = []"
    by (simp_all add: repeatBuyerLaunch_def forensicsOf_def)
  have r: "analyzeForensics (Some repeatBuyerLaunch) (nearestDouble (1 / 100)) (Fin 0) ''solana''
       = Inr repeatBuyerResult"
    by (simp add: analyze_solana Let_def c v e b o repeatBuyerResult_def)
  have t: "map NormalizedTransfer.tokenAmount (block0Transfers repeatBuyerLaunch)
             = [Fin 1000, Fin 1000, Fin 1000, Fin 1000]"
    "map NormalizedTransfer.usdValue (block0Transfers repeatBuyerLaunch)
             = [Fin 0, Fin 0, Fin 0, Fin 0]"
    "map buyerAddress (block0Transfers repeatBuyerLaunch)
       = [''buyerA'', ''buyerB'', ''buyerC'', ''buyerA'']"
    by (simp_all add: repeatBuyerLaunch_def forensicsOf_def transferOf_def)
  from c t r show ?thesis by (simp add: repeatBuyerResult_def)
qed

text \<open>
  C6, amended. Scenario A: on a slot-model chain whose launch window holds exactly three
  transfers, one from each of three distinct non-zero buyers, each with
  \<open>tokenAmount = 1000\<close> and \<open>usdValue = 0\<close>, and with \<open>priceUsd = 0.01\<close> (the double
  nearest to 0.01), the analyzer returns a launch volume of 30, a bundle cluster, and a
  bundle volume of 30: where the USD value is not positive the volume of a transfer is
  \<open>tokenAmount \<times> priceUsd\<close>, here the double 10 after rounding.
\<close>

theorem scenario_A_launch_volume:
  assumes "block0Transfers f = [t1, t2, t3]"
    and "distinct [buyerAddress t1, buyerAddress t2, buyerAddress t3]"
    and "list_all (\<lambda>t. \<not> isZeroAddress (buyerAddress t)
                       \<and> NormalizedTransfer.tokenAmount t = Fin 1000 \<and> usdValue t = Fin 0)
           [t1, t2, t3]"
  shows "\<exists>r. analyzeForensics (Some f) (nearestDouble (1 / 100)) fd ''solana'' = Inr r
           \<and> AnalysisResult.block0Volume r = Fin 30
           \<and> hasBundleCluster r
           \<and> bundleVolumeUSD r = Fin 30"
proof -
  have noise: "\<not> mintLikeNoise False t1" "\<not> mintLikeNoise False t2" "\<not> mintLikeNoise False t3"
    using assms(3) by (auto simp: mintLikeNoise_def isZeroAddress_def ZERO_ADDRESSES_def)
  have vol: "windowVolume False (nearestDouble (1 / 100)) (block0Transfers f) = Fin 30"
    using assms(1,3) noise
    by (simp add: windowVolume_def transferVolume_def js_mul_1000_hundredth js_sum_10)
  have "distinctBuyers False (block0Transfers f) = {buyerAddress t1, buyerAddress t2, buyerAddress t3}"
    using assms(1) noise by (auto simp: distinctBuyers_def)
  then have "card (distinctBuyers False (block0Transfers f)) = 3"
    using assms(2) by simp
  with vol show ?thesis by (simp add: analyze_solana Let_def)
qed

theorem scenario_A_launch_volume_witness:
  "block0Transfers launchBundle
     = [transferOf ''buyerA'' [] (Fin 1000) (Fin 0), transferOf ''buyerB'' [] (Fin 1000) (Fin 0),
        transferOf ''buyerC'' [] (Fin 1000) (Fin 0)]
   \<and> nearestDouble (1 / 100) = Fin (5764607523034235 / 2 ^ 59)
   \<and> (\<exists>r. analyzeForensics (Some launchBundle) (nearestDouble (1 / 100)) (Fin 50000) ''solana''
            = Inr r
          \<and> AnalysisResult.block0Volume r = Fin 30
          \<and> hasBundleCluster r
          \<and> bundleVolumeUSD r = Fin 30)"
proof -
  have 1: "block0Transfers launchBundle
     = [transferOf ''buyerA'' [] (Fin 1000) (Fin 0), transferOf ''buyerB'' [] (Fin 1000) (Fin 0),
        transferOf ''buyerC'' [] (Fin 1000) (Fin 0)]"
    by (simp add: launchBundle_def forensicsOf_def)
  have 2: "distinct [buyerAddress (transferOf ''buyerA'' [] (Fin 1000) (Fin 0)),
                     buyerAddress (transferOf ''buyerB'' [] (Fin 1000) (Fin 0)),
                     buyerAddress (transferOf ''buyerC'' [] (Fin 1000) (Fin 0))]"
    by (simp add: transferOf_def)
  have 3: "list_all (\<lambda>t. \<not> isZeroAddress (buyerAddress t)
                       \<and> NormalizedTransfer.tokenAmount t = Fin 1000 \<and> usdValue t = Fin 0)
             [transferOf ''buyerA'' [] (Fin 1000) (Fin 0),
              transferOf ''buyerB'' [] (Fin 1000) (Fin 0),
              transferOf ''buyerC'' [] (Fin 1000) (Fin 0)]"
    by (simp add: transferOf_def isZeroAddress_def ZERO_ADDRESSES_def)
  from scenario_A_launch_volume[OF 1 2 3, of "Fin 50000"] 1 nearestDouble_hundredth
  show ?thesis by (simp only: simp_thms)
qed

text \<open>
  On the analysis assembled from the empty result each of the three rules that read the
  launch snapshot adds its pass entry of impact 0 and leaves the score as it is. No
  other rule adds an entry under one of their labels.
\<close>

lemma empty_analysis_rules:
  "bundleActivityRule js (analysisOf emptyAnalysisResult) st =
         (fst st, snd st @ [\<lparr>label = ''Bundle Activity'', impact = 0, status = ''pass'',
                              detail = ''No bundle activity detected''\<rparr>])"
  "launchVolumeRule js (analysisOf emptyAnalysisResult) st =
         (fst st, snd st @ [\<lparr>label = ''Launch Volume'', impact = 0, status = ''pass'',
                              detail = ''No launch block activity''\<rparr>])"
  "holderConcentrationRule js (analysisOf emptyAnalysisResult) st =
         (fst st, snd st @ [\<lparr>label = ''Holder Concentration'', impact = 0, status = ''pass'',
                              detail = toFixed1 js (Fin 0) @ ''% held by top 20 '' @ emDash
                                       @ '' distributed''\<rparr>])"
  by (simp_all add: emptyAnalysisResult_def analysisOf_def
      bundleActivityRule_def launchVolumeRule_def holderConcentrationRule_def Let_def)

lemma mintableRule_labels:
  "filter (\<lambda>e. label e \<in> set snapshotRuleLabels) (snd (mintableRule sec st))
     = filter (\<lambda>e. label e \<in> set snapshotRuleLabels) (snd st)"
  by (simp add: mintableRule_def snapshotRuleLabels_def)

lemma buyTaxRule_labels:
  "filter (\<lambda>e. label e \<in> set snapshotRuleLabels) (snd (buyTaxRule js sec st))
     = filter (\<lambda>e. label e \<in> set snapshotRuleLabels) (snd st)"
  by (simp add: buyTaxRule_def Let_def snapshotRuleLabels_def)

lemma sellTaxRule_labels:
  "filter (\<lambda>e. label e \<in> set snapshotRuleLabels) (snd (sellTaxRule js sec st))
     = filter (\<lambda>e. label e \<in> set snapshotRuleLabels) (snd st)"
  by (simp add: sellTaxRule_def Let_def snapshotRuleLabels_def)

lemma sellRestrictionRule_labels:
  "filter (\<lambda>e. label e \<in> set snapshotRuleLabels) (snd (sellRestrictionRule sec st))
     = filter (\<lambda>e. label e \<in> set snapshotRuleLabels) (snd st)"
  by (simp add: sellRestrictionRule_def snapshotRuleLabels_def)

lemma liquidityRule_labels:
  "filter (\<lambda>e. label e \<in> set snapshotRuleLabels) (snd (liquidityRule js liq st))
     = filter (\<lambda>e. label e \<in> set snapshotRuleLabels) (snd st)"
  by (simp add: liquidityRule_def snapshotRuleLabels_def)

lemma lpImpactRule_labels:
  "filter (\<lambda>e. label e \<in> set snapshotRuleLabels) (snd (lpImpactRule js b st))
     = filter (\<lambda>e. label e \<in> set snapshotRuleLabels) (snd st)"
  by (simp add: lpImpactRule_def Let_def snapshotRuleLabels_def)

lemma bundledSupplyRule_labels:
  "filter (\<lambda>e. label e \<in> set snapshotRuleLabels) (snd (bundledSupplyRule js b st))
     = filter (\<lambda>e. label e \<in> set snapshotRuleLabels) (snd st)"
  by (simp add: bundledSupplyRule_def Let_def snapshotRuleLabels_def)

lemma deepBundleRules_labels:
  "filter (\<lambda>e. label e \<in> set snapshotRuleLabels) (snd (deepBundleRules js bc st))
     = filter (\<lambda>e. label e \<in> set snapshotRuleLabels) (snd st)"
  by (simp add: deepBundleRules_def lpImpactRule_labels bundledSupplyRule_labels
      split: option.splits)

lemma snapshot_rules_labels:
  "filter (\<lambda>e. label e \<in> set snapshotRuleLabels)
     (snd (holderConcentrationRule js (analysisOf emptyAnalysisResult)
            (launchVolumeRule js (analysisOf emptyAnalysisResult)
              (bundleActivityRule js (analysisOf emptyAnalysisResult) st))))
   = filter (\<lambda>e. label e \<in> set snapshotRuleLabels) (snd st)
     @ [\<lparr>label = ''Bundle Activity'', impact = 0, status = ''pass'',
         detail = ''No bundle activity detected''\<rparr>,
        \<lparr>label = ''Launch Volume'', impact = 0, status = ''pass'',
         detail = ''No launch block activity''\<rparr>,
        \<lparr>label = ''Holder Concentration'', impact = 0, status = ''pass'',
         detail = toFixed1 js (Fin 0) @ ''% held by top 20 '' @ emDash @ '' distributed''\<rparr>]"
  by (simp add: empty_analysis_rules snapshotRuleLabels_def)

lemma empty_analysis_breakdown:
  "filter (\<lambda>e. label e \<in> set snapshotRuleLabels)
     (breakdown (calculateScore js liq sec (analysisOf emptyAnalysisResult) bc))
   = (if (case sec of None \<Rightarrow> False | Some s \<Rightarrow> is_honeypot s) then []
      else [\<lparr>label = ''Bundle Activity'', impact = 0, status = ''pass'',
              detail = ''No bundle activity detected''\<rparr>,
            \<lparr>label = ''Launch Volume'', impact = 0, status = ''pass'',
              detail = ''No launch block activity''\<rparr>,
            \<lparr>label = ''Holder Concentration'', impact = 0, status = ''pass'',
              detail = toFixed1 js (Fin 0) @ ''% held by top 20 '' @ emDash
                       @ '' distributed''\<rparr>])"
proof (cases "case sec of None \<Rightarrow> False | Some s \<Rightarrow> is_honeypot s")
  case True
  then show ?thesis
    by (simp add: calculateScore_unfold honeypotFactor_def snapshotRuleLabels_def)
next
  case False
  have "filter (\<lambda>e. label e \<in> set snapshotRuleLabels)
          (snd (deepBundleRules js bc
            (holderConcentrationRule js (analysisOf emptyAnalysisResult)
              (launchVolumeRule js (analysisOf emptyAnalysisResult)
                (bundleActivityRule js (analysisOf emptyAnalysisResult)
                  (liquidityRule js liq (sellRestrictionRule sec
                    (sellTaxRule js sec (buyTaxRule js sec (mintableRule sec (100, [])))))))))))
        = [\<lparr>label = ''Bundle Activity'', impact = 0, status = ''pass'',
              detail = ''No bundle activity detected''\<rparr>,
            \<lparr>label = ''Launch Volume'', impact = 0, status = ''pass'',
              detail = ''No launch block activity''\<rparr>,
            \<lparr>label = ''Holder Concentration'', impact = 0, status = ''pass'',
              detail = toFixed1 js (Fin 0) @ ''% held by top 20 '' @ emDash
                       @ '' distributed''\<rparr>]"
    by (simp only: deepBundleRules_labels snapshot_rules_labels liquidityRule_labels
        sellRestrictionRule_labels sellTaxRule_labels buyTaxRule_labels mintableRule_labels)
       simp
  with False show ?thesis by (simp add: calculateScore_unfold Let_def)
qed

text \<open>
  C7 as stated fails: without a forensic snapshot, but with a security audit that reports
  a honeypot, the scoring returns the honeypot entry alone; none of the three rules takes
  a branch.
\<close>

theorem absent_snapshot_honeypot_counterexample:
  "analyzeForensics None (Fin 0) (Fin 0) ''solana'' = Inr emptyAnalysisResult
   \<and> is_honeypot (sampleSecurity True False)
   \<and> breakdown (calculateScore sampleBuiltins (Fin 25000) (Some (sampleSecurity True False))
        (analysisOf emptyAnalysisResult) None) = [honeypotFactor]
   \<and> label honeypotFactor = ''Honeypot''
   \<and> ''Honeypot'' \<notin> set snapshotRuleLabels"
  by (simp add: analyzeForensics_def sampleSecurity_def calculateScore_def honeypotFactor_def
      snapshotRuleLabels_def)

text \<open>
  C7, amended. Without a forensic snapshot the analyzer returns the all-zero, empty
  result. On the analysis assembled from it, and unless the security audit reports a
  honeypot, the breakdown that the scoring returns holds exactly one entry under each of
  the labels of the bundle-activity, launch-volume and holder-concentration rules, in
  this order, each the pass entry of impact 0 of its rule; with a honeypot it holds none.
\<close>

theorem absent_snapshot_takes_pass_branches:
  "\<exists>r. analyzeForensics None p fd c = Inr r
     \<and> r = \<lparr>sniperCount = 0, block0Volume = Fin 0, earlyVolume = Fin 0, bundleVolumeUSD = Fin 0,
            totalBundlePercentage = Fin 0, holdingConcentration = Fin 0,
            uniqueFundingSources = 0, hasBundleCluster = False, block0Buyers = []\<rparr>
     \<and> filter (\<lambda>e. label e \<in> set snapshotRuleLabels)
          (breakdown (calculateScore js liq sec (analysisOf r) bc))
       = (if (case sec of None \<Rightarrow> False | Some s \<Rightarrow> is_honeypot s) then []
          else [\<lparr>label = ''Bundle Activity'', impact = 0, status = ''pass'',
                  detail = ''No bundle activity detected''\<rparr>,
                \<lparr>label = ''Launch Volume'', impact = 0, status = ''pass'',
                  detail = ''No launch block activity''\<rparr>,
                \<lparr>label = ''Holder Concentration'', impact = 0, status = ''pass'',
                  detail = toFixed1 js (Fin 0) @ ''% held by top 20 '' @ emDash
                           @ '' distributed''\<rparr>])"
proof -
  have "analyzeForensics None p fd c = Inr emptyAnalysisResult"
    by (simp add: analyzeForensics_def)
  moreover have "emptyAnalysisResult
      = \<lparr>sniperCount = 0, block0Volume = Fin 0, earlyVolume = Fin 0, bundleVolumeUSD = Fin 0,
         totalBundlePercentage = Fin 0, holdingConcentration = Fin 0,
         uniqueFundingSources = 0, hasBundleCluster = False, block0Buyers = []\<rparr>"
    by (simp add: emptyAnalysisResult_def)
  ultimately show ?thesis
    using empty_analysis_breakdown[of js liq sec bc] by (intro exI[of _ emptyAnalysisResult]) simp
qed

theorem absent_snapshot_takes_pass_branches_witness:
  "\<exists>r. analyzeForensics None (Fin 0) (Fin 50000) ''solana'' = Inr r
     \<and> r = \<lparr>sniperCount = 0, block0Volume = Fin 0, earlyVolume = Fin 0, bundleVolumeUSD = Fin 0,
            totalBundlePercentage = Fin 0, holdingConcentration = Fin 0,
            uniqueFundingSources = 0, hasBundleCluster = False, block0Buyers = []\<rparr>
     \<and> filter (\<lambda>e. label e \<in> set snapshotRuleLabels)
          (breakdown (calculateScore sampleBuiltins (Fin 2500) (Some (sampleSecurity False True))
             (analysisOf r) (Some sampleBundleControl)))
       = [\<lparr>label = ''Bundle Activity'', impact = 0, status = ''pass'',
            detail = ''No bundle activity detected''\<rparr>,
          \<lparr>label = ''Launch Volume'', impact = 0, status = ''pass'',
            detail = ''No launch block activity''\<rparr>,
          \<lparr>label = ''Holder Concentration'', impact = 0, status = ''pass'',
            detail = ''n% held by top 20 '' @ emDash @ '' distributed''\<rparr>]"
  using absent_snapshot_takes_pass_branches[of "Fin 0" "Fin 50000" "''solana''" sampleBuiltins
      "Fin 2500" "Some (sampleSecurity False True)" "Some sampleBundleControl"]
  by (simp add: sampleBuiltins_def sampleSecurity_def)

section \<open>Properties of the distribution-tree trace\<close>

text \<open>
  The seed loop adds one node for every seed that is not excluded, whatever the number
  of nodes; the loops of the later levels add nothing once the cap is reached, and never
  go beyond it.
\<close>

lemma seed_fold_length:
  "length (snd (foldl (seedStep ex fetch) st seeds))
     = length (snd st) + length (filter (\<lambda>w. \<not> ex w) seeds)"
  by (induction seeds arbitrary: st) (simp_all add: seedStep_def)

lemma levelLoop_at_cap:
  "MAX_TOTAL_WALLETS \<le> length (snd st) \<Longrightarrow> levelLoop fetch ws st = st"
  by (cases ws) simp_all

lemma level3Loop_at_cap:
  "MAX_TOTAL_WALLETS \<le> length (snd st) \<Longrightarrow> level3Loop bs st = st"
  by (cases bs) auto

lemma levelLoop_bound:
  "length (snd st) \<le> MAX_TOTAL_WALLETS \<Longrightarrow>
   length (snd (levelLoop fetch ws st)) \<le> MAX_TOTAL_WALLETS"
  by (induction ws arbitrary: st) auto

lemma level3Loop_bound:
  "length (snd st) \<le> MAX_TOTAL_WALLETS \<Longrightarrow>
   length (snd (level3Loop bs st)) \<le> MAX_TOTAL_WALLETS"
  by (induction bs arbitrary: st) auto

lemma trace_shape:
  assumes "apiKey \<noteq> []"
  shows "\<exists>l1 l2 bs. traceDistributionTree apiKey A seeds mintAddress =
           snd (level3Loop bs
                 (levelLoop (\<lambda>n w. fetchTransferWalletData A n w mintAddress 2) l2
                   (levelLoop (\<lambda>n w. fetchTransferWalletData A n w mintAddress 1) l1
                     (foldl (seedStep isExcludedAddress
                               (\<lambda>n w. fetchFullWalletData A n w mintAddress True 0))
                        ([], []) seeds))))"
  unfolding traceDistributionTree_def
  apply (simp only: if_not_P[OF assms] Let_def)
  apply (split if_split)
  apply (intro conjI impI)
   apply (rule exI, rule exI, rule exI, rule refl)
  apply (rule exI, rule exI, rule exI[of _ "[]"])
  apply (simp only: level3Loop.simps(1))
  done

lemma evm_trace_shape:
  assumes "apiKey \<noteq> []"
  shows "\<exists>l1 l2 bs. traceEvmDistributionTree apiKey A seeds =
           snd (level3Loop bs
                 (levelLoop (\<lambda>n w. fetchEvmWalletData A n w False 2) l2
                   (levelLoop (\<lambda>n w. fetchEvmWalletData A n w False 1) l1
                     (foldl (seedStep isExcluded (\<lambda>n w. fetchEvmWalletData A n w True 0))
                        ([], []) seeds))))"
  unfolding traceEvmDistributionTree_def
  apply (simp only: if_not_P[OF assms] Let_def)
  apply (split if_split)
  apply (intro conjI impI)
   apply (rule exI, rule exI, rule exI, rule refl)
  apply (rule exI, rule exI, rule exI[of _ "[]"])
  apply (simp only: level3Loop.simps(1))
  done

lemma loops_over_cap:
  assumes "MAX_TOTAL_WALLETS \<le> length (snd st0)"
  shows "level3Loop bs (levelLoop f2 l2 (levelLoop f1 l1 st0)) = st0"
  using assms by (simp add: levelLoop_at_cap level3Loop_at_cap)

lemma loops_under_cap:
  assumes "length (snd st0) \<le> MAX_TOTAL_WALLETS"
  shows "length (snd (level3Loop bs (levelLoop f2 l2 (levelLoop f1 l1 st0)))) \<le> MAX_TOTAL_WALLETS"
  using assms by (intro level3Loop_bound levelLoop_bound)

lemma trace_length_over_cap:
  assumes "apiKey \<noteq> []"
    and "MAX_TOTAL_WALLETS \<le> length (filter (\<lambda>w. \<not> isExcludedAddress w) seeds)"
  shows "length (traceDistributionTree apiKey A seeds mintAddress)
           = length (filter (\<lambda>w. \<not> isExcludedAddress w) seeds)"
proof -
  from trace_shape[OF assms(1), of A seeds mintAddress] obtain l1 l2 bs where
    "traceDistributionTree apiKey A seeds mintAddress =
           snd (level3Loop bs
                 (levelLoop (\<lambda>n w. fetchTransferWalletData A n w mintAddress 2) l2
                   (levelLoop (\<lambda>n w. fetchTransferWalletData A n w mintAddress 1) l1
                     (foldl (seedStep isExcludedAddress
                               (\<lambda>n w. fetchFullWalletData A n w mintAddress True 0))
                        ([], []) seeds))))"
    by blast
  then show ?thesis
    using assms(2) by (simp add: loops_over_cap seed_fold_length)
qed

lemma trace_length_under_cap:
  assumes "length (filter (\<lambda>w. \<not> isExcludedAddress w) seeds) \<le> MAX_TOTAL_WALLETS"
  shows "length (traceDistributionTree apiKey A seeds mintAddress) \<le> MAX_TOTAL_WALLETS"
proof (cases "apiKey = []")
  case True
  then show ?thesis by (simp add: traceDistributionTree_def)
next
  case False
  from trace_shape[OF False, of A seeds mintAddress] obtain l1 l2 bs where
    "traceDistributionTree apiKey A seeds mintAddress =
           snd (level3Loop bs
                 (levelLoop (\<lambda>n w. fetchTransferWalletData A n w mintAddress 2) l2
                   (levelLoop (\<lambda>n w. fetchTransferWalletData A n w mintAddress 1) l1
                     (foldl (seedStep isExcludedAddress
                               (\<lambda>n w. fetchFullWalletData A n w mintAddress True 0))
                        ([], []) seeds))))"
    by blast
  then show ?thesis
    using assms by (simp add: loops_under_cap seed_fold_length)
qed

lemma evm_trace_length_over_cap:
  assumes "apiKey \<noteq> []"
    and "MAX_TOTAL_WALLETS \<le> length (filter (\<lambda>w. \<not> isExcluded w) seeds)"
  shows "length (traceEvmDistributionTree apiKey A seeds)
           = length (filter (\<lambda>w. \<not> isExcluded w) seeds)"
proof -
  from evm_trace_shape[OF assms(1), of A seeds] obtain l1 l2 bs where
    "traceEvmDistributionTree apiKey A seeds =
           snd (level3Loop bs
                 (levelLoop (\<lambda>n w. fetchEvmWalletData A n w False 2) l2
                   (levelLoop (\<lambda>n w. fetchEvmWalletData A n w False 1) l1
                     (foldl (seedStep isExcluded (\<lambda>n w. fetchEvmWalletData A n w True 0))
                        ([], []) seeds))))"
    by blast
  then show ?thesis
    using assms(2) by (simp add: loops_over_cap seed_fold_length)
qed

lemma evm_trace_length_under_cap:
  assumes "length (filter (\<lambda>w. \<not> isExcluded w) seeds) \<le> MAX_TOTAL_WALLETS"
  shows "length (traceEvmDistributionTree apiKey A seeds) \<le> MAX_TOTAL_WALLETS"
proof (cases "apiKey = []")
  case True
  then show ?thesis by (simp add: traceEvmDistributionTree_def)
next
  case False
  from evm_trace_shape[OF False, of A seeds] obtain l1 l2 bs where
    "traceEvmDistributionTree apiKey A seeds =
           snd (level3Loop bs
                 (levelLoop (\<lambda>n w. fetchEvmWalletData A n w False 2) l2
                   (levelLoop (\<lambda>n w. fetchEvmWalletData A n w False 1) l1
                     (foldl (seedStep isExcluded (\<lambda>n w. fetchEvmWalletData A n w True 0))
                        ([], []) seeds))))"
    by blast
  then show ?thesis
    using assms by (simp add: loops_under_cap seed_fold_length)
qed

lemma heliusSeed_not_excluded: "\<not> isExcludedAddress (heliusSeed i)"
  by (simp add: isExcludedAddress_def heliusSeed_def EXCLUDED_ADDRESSES_def)

lemma evmSeed_not_excluded: "\<not> isExcluded (evmSeed i)"
  by (simp add: isExcluded_def evmSeed_def EVM_EXCLUDED_ADDRESSES_def toLowerCase_def)

lemma seedDigit_inj: "a < 9 \<Longrightarrow> b < 9 \<Longrightarrow> seedDigit a = seedDigit b \<Longrightarrow> a = b"
  by (simp add: seedDigit_def char_of_eq_iff take_bit_eq_mod)

lemma digits_inj:
  fixes i j :: nat
  assumes "i < 401" "j < 401"
    and "seedDigit (i div 81) = seedDigit (j div 81)"
    and "seedDigit (i div 9 mod 9) = seedDigit (j div 9 mod 9)"
    and "seedDigit (i mod 9) = seedDigit (j mod 9)"
  shows "i = j"
proof -
  have a: "i div 81 = j div 81"
    using assms(1,2,3) by (intro seedDigit_inj) auto
  have b: "i div 9 mod 9 = j div 9 mod 9"
    using assms(4) by (intro seedDigit_inj) auto
  have c: "i mod 9 = j mod 9"
    using assms(5) by (intro seedDigit_inj) auto
  have i81: "i div 9 div 9 = i div 81" and j81: "j div 9 div 9 = j div 81"
    by (simp_all add: div_mult2_eq[symmetric])
  have "i div 9 = 9 * (i div 9 div 9) + i div 9 mod 9" by simp
  also have "\<dots> = 9 * (j div 9 div 9) + j div 9 mod 9" using a b i81 j81 by simp
  also have "\<dots> = j div 9" by simp
  finally have d: "i div 9 = j div 9" .
  have "i = 9 * (i div 9) + i mod 9" by simp
  also have "\<dots> = 9 * (j div 9) + j mod 9" using c d by simp
  also have "\<dots> = j" by simp
  finally show ?thesis .
qed

lemma heliusSeed_distinct: "distinct (map heliusSeed [0..<401])"
  by (auto simp: distinct_map inj_on_def heliusSeed_def intro: digits_inj)

lemma evmSeed_distinct: "distinct (map evmSeed [0..<401])"
  by (auto simp: distinct_map inj_on_def evmSeed_def intro: digits_inj)

lemma filter_all: "(\<And>x. x \<in> set xs \<Longrightarrow> P x) \<Longrightarrow> filter P xs = xs"
  by (induction xs) auto

lemma heliusSeeds_kept:
  "filter (\<lambda>w. \<not> isExcludedAddress w) (map heliusSeed [0..<401]) = map heliusSeed [0..<401]"
  by (rule filter_all) (auto simp: heliusSeed_not_excluded)

lemma evmSeeds_kept:
  "filter (\<lambda>w. \<not> isExcluded w) (map evmSeed [0..<401]) = map evmSeed [0..<401]"
  by (rule filter_all) (auto simp: evmSeed_not_excluded)

text \<open>
  C3. The claim is that a trace never returns more than 400 nodes. Given 401 pairwise
  different seed addresses, none of them excluded, both tracers return 401 nodes,
  whatever the adapter answers: the loop over the seeds does not test the cap.
\<close>

theorem seed_level_ignores_cap:
  "distinct (map heliusSeed [0..<401])
   \<and> length (traceDistributionTree ''key'' A (map heliusSeed [0..<401]) mintAddress) = 401
   \<and> distinct (map evmSeed [0..<401])
   \<and> length (traceEvmDistributionTree ''key'' B (map evmSeed [0..<401])) = 401"
proof -
  have "length (traceDistributionTree ''key'' A (map heliusSeed [0..<401]) mintAddress) = 401"
    by (subst trace_length_over_cap) (simp_all add: heliusSeeds_kept MAX_TOTAL_WALLETS_def)
  moreover have "length (traceEvmDistributionTree ''key'' B (map evmSeed [0..<401])) = 401"
    by (subst evm_trace_length_over_cap) (simp_all add: evmSeeds_kept MAX_TOTAL_WALLETS_def)
  ultimately show ?thesis
    using heliusSeed_distinct evmSeed_distinct by simp
qed

text \<open>
  C8. The claim is that the funding source is chosen among the incoming native transfers
  above the dust threshold. For a transaction whose first native transfer to the
  wallet is a dust transfer of 5000 lamports from an exchange address and whose second is
  the funding transfer of 20000000 lamports, \<open>traceFundingSource\<close> reports the dust
  transfer: its sender, its amount, and the exchange flag.
\<close>

theorem funding_source_reports_dust_transfer:
  "traceFundingSource [dustFirstTx] fundedWallet 2000 =
     Some \<lparr>FundingSource.address = dustSender, amount = Fin 5000, timestamp = 1000,
           isCex = True\<rparr>"
  by (simp add: traceFundingSource_def dustFirstTx_def fundedWallet_def dustSender_def
      realFunder_def KNOWN_CEX_ADDRESSES_def)

section \<open>Properties of the scan\<close>

text \<open>
  C9 as stated fails: for a query that resolves to no trading pair the scan returns the
  empty result, whose score is 0 and whose risk level is CAUTION, not CRITICAL.
\<close>

theorem empty_result_counterexample:
  "runFullScan sampleBuiltins sampleMocks (sampleUpstream []) ''abc''
     = Inr (buildEmptyResult ''abc'')
   \<and> ScanResult.score (buildEmptyResult ''abc'') < 20
   \<and> riskLevel (buildEmptyResult ''abc'') \<noteq> CRITICAL"
  by (simp add: runFullScan_def sampleBuiltins_def sampleUpstream_def buildEmptyResult_def)

text \<open>
  C9, amended. For every result of a scan that is not a demo scenario: if a trading
  pair was found, the risk level follows from the score by the bands (SAFE from 80,
  CAUTION from 50, DANGER from 20, CRITICAL below); if none was found, the score is 0
  and the risk level is CAUTION.
\<close>

theorem live_scan_risk_bands:
  assumes "runFullScan js mocks up query = Inr r"
    and "toUpperCaseTrim js query \<notin> {''RUG'', ''VAMPIRE'', ''NEST'', ''SAFE''}"
  shows "(allDexPairs up \<noteq> [] \<longrightarrow>
            riskLevel r = (if 80 \<le> ScanResult.score r then SAFE
                           else if 50 \<le> ScanResult.score r then CAUTION
                           else if 20 \<le> ScanResult.score r then DANGER
                           else CRITICAL))
       \<and> (allDexPairs up = [] \<longrightarrow> ScanResult.score r = 0 \<and> riskLevel r = CAUTION)"
proof (cases "allDexPairs up")
  case Nil
  with assms have "r = buildEmptyResult query"
    by (simp add: runFullScan_def Let_def)
  with Nil show ?thesis by (simp add: buildEmptyResult_def)
next
  case (Cons bestPair rest)
  with assms have "riskLevel r = riskLevelOf (ScanResult.score r)"
    by (auto simp: runFullScan_def Let_def split: sum.splits)
  with Cons show ?thesis by (simp add: riskLevelOf_def)
qed

lemma sample_scan_analysis: "analyzeForensics None (Fin 0) (Fin 1000000) ''solana'' = Inr emptyAnalysisResult"
    by (simp add: analyzeForensics_def)

lemma sample_scan_no_deep_analysis: "deepBundleAnalysis (sampleUpstream ps) None ar c t p f l = None"
  by (simp add: deepBundleAnalysis_def sampleUpstream_def Let_def)

lemma sample_scan_score: "ScoreResult.score (calculateScore sampleBuiltins (Fin 25000) None
             (analysisOf emptyAnalysisResult) None) = 100"
    by (simp add: sampleBuiltins_def
        calculateScore_def mintableRule_def buyTaxRule_def sellTaxRule_def
        sellRestrictionRule_def liquidityRule_def bundleActivityRule_def launchVolumeRule_def
        holderConcentrationRule_def deepBundleRules_def taxString_def analysisOf_def
        emptyAnalysisResult_def Let_def)

lemma sample_scan_returns: "\<exists>r. runFullScan sampleBuiltins sampleMocks (sampleUpstream [samplePair]) ''abc'' = Inr r
     \<and> ScanResult.score r = ScoreResult.score (calculateScore sampleBuiltins (Fin 25000) None
             (analysisOf emptyAnalysisResult) None)"
proof -
  have 1: "toUpperCaseTrim sampleBuiltins ''abc'' = ''abc''" by (simp add: sampleBuiltins_def)
  have 2: "allDexPairs (sampleUpstream [samplePair]) = [samplePair]"
    "moralisKey (sampleUpstream [samplePair]) = []"
    "securityData (sampleUpstream [samplePair]) = None"
    by (simp_all add: sampleUpstream_def)
  have 3: "parseFloat sampleBuiltins ''0'' = Fin 0" by (simp add: sampleBuiltins_def)
  have 4: "DexPairData.chainId samplePair = ''solana''" "DexPairData.priceUsd samplePair = ''0''"
    "orZero (liquidityUsd samplePair) = Fin 25000" "orZero (fdv samplePair) = Fin 1000000"
    by (simp_all add: samplePair_def orZero_def)
  show ?thesis
    by (simp add: runFullScan_def Let_def 1 2 3 4 sample_scan_analysis sample_scan_no_deep_analysis)
qed

theorem live_scan_risk_bands_witness:
  "(\<exists>r. runFullScan sampleBuiltins sampleMocks (sampleUpstream [samplePair]) ''abc'' = Inr r
        \<and> ScanResult.score r = 100 \<and> riskLevel r = SAFE)
   \<and> allDexPairs (sampleUpstream [samplePair]) \<noteq> []
   \<and> runFullScan sampleBuiltins sampleMocks (sampleUpstream []) ''abc''
       = Inr (buildEmptyResult ''abc'')
   \<and> allDexPairs (sampleUpstream []) = []
   \<and> ScanResult.score (buildEmptyResult ''abc'') = 0
   \<and> riskLevel (buildEmptyResult ''abc'') = CAUTION"
proof -
  have q: "toUpperCaseTrim sampleBuiltins ''abc'' \<notin> {''RUG'', ''VAMPIRE'', ''NEST'', ''SAFE''}"
    by (simp add: sampleBuiltins_def)
  have p: "allDexPairs (sampleUpstream [samplePair]) \<noteq> []"
    by (simp add: sampleUpstream_def)
  from sample_scan_returns sample_scan_score obtain r where
    h: "runFullScan sampleBuiltins sampleMocks (sampleUpstream [samplePair]) ''abc'' = Inr r"
    and s: "ScanResult.score r = 100"
    by auto
  from live_scan_risk_bands[OF h q] p s have "riskLevel r = SAFE" by simp
  with h s have 1:
    "\<exists>r. runFullScan sampleBuiltins sampleMocks (sampleUpstream [samplePair]) ''abc'' = Inr r
        \<and> ScanResult.score r = 100 \<and> riskLevel r = SAFE"
    by blast
  have e: "runFullScan sampleBuiltins sampleMocks (sampleUpstream []) ''abc''
             = Inr (buildEmptyResult ''abc'')"
    by (simp add: runFullScan_def sampleBuiltins_def sampleUpstream_def)
  have pe: "allDexPairs (sampleUpstream []) = []"
    by (simp add: sampleUpstream_def)
  from live_scan_risk_bands[OF e q] pe
  have 2: "ScanResult.score (buildEmptyResult ''abc'') = 0
           \<and> riskLevel (buildEmptyResult ''abc'') = CAUTION"
    by simp
  from 1 p e pe 2 show ?thesis by simp
qed

text \<open>
  A scan that finds a trading pair but gets no forensic snapshot scores the empty
  analysis without a cluster-control result.
\<close>

lemma scan_without_snapshot:
  assumes "toUpperCaseTrim js query \<notin> {''RUG'', ''VAMPIRE'', ''NEST'', ''SAFE''}"
    and "allDexPairs up = bestPair # rest"
    and "moralisKey up = [] \<or> forensicsFetch up = Returned None \<or> forensicsFetch up = Failed"
  shows "\<exists>r. runFullScan js mocks up query = Inr r
           \<and> analysis r = analysisOf emptyAnalysisResult
           \<and> bundleControl r = None
           \<and> scoreBreakdown r =
               breakdown (calculateScore js (orZero (liquidityUsd bestPair)) (securityData up)
                            (analysisOf emptyAnalysisResult) None)"
proof -
  have f: "(if moralisKey up = [] then None
            else (case forensicsFetch up of Returned f \<Rightarrow> f | Failed \<Rightarrow> None)) = None"
    using assms(3) by auto
  have a: "\<And>p fd c. analyzeForensics None p fd c = Inr emptyAnalysisResult"
    by (simp add: analyzeForensics_def)
  have d: "\<And>c t p fd l. deepBundleAnalysis up None emptyAnalysisResult c t p fd l = None"
    by (simp add: deepBundleAnalysis_def Let_def emptyAnalysisResult_def)
  show ?thesis
    using assms(1,2) by (simp add: runFullScan_def Let_def f a d)
qed

end
